theory Spec2Isabelle
  imports Complex_Main
begin

section \<open>Machine arithmetic of the sketches\<close>

text \<open>
  The controllers are Arduino sketches for the Atverter boards (ATmega targets): \<open>int\<close> is
  16 bits wide, \<open>int32_t\<close> and \<open>long\<close> are 32 bits, \<open>uint16_t\<close> is an unsigned 16-bit
  value. Machine integers are modelled as \<open>int\<close> with the wrap-around written out; a
  signed overflow wraps in two's complement, as the target's instructions do. C division
  truncates towards zero.

  A division whose divisor is zero, of integers or of doubles, is what the spec calls an
  arithmetic fault; the model reports it, and a tick that meets one has no result. There
  is no other fault: every other operation of a tick has a value.
\<close>

datatype fault = ZeroDivisor

definition wrap_u16 :: "int \<Rightarrow> int" where
  "wrap_u16 x = x mod 65536"

definition wrap_s16 :: "int \<Rightarrow> int" where
  "wrap_s16 x = (x + 32768) mod 65536 - 32768"

definition wrap_s32 :: "int \<Rightarrow> int" where
  "wrap_s32 x = (x + 2147483648) mod 4294967296 - 2147483648"

definition c_div :: "int \<Rightarrow> int \<Rightarrow> int" where
  "c_div a b = sgn a * sgn b * (\<bar>a\<bar> div \<bar>b\<bar>)"

text \<open>Integer division as a statement of the program: a zero divisor is a fault.\<close>

definition int_div :: "int \<Rightarrow> int \<Rightarrow> fault + int" where
  "int_div a b = (if b = 0 then Inl ZeroDivisor else Inr (c_div a b))"

section \<open>Floating-point arithmetic\<close>

text \<open>
  A value of type \<open>double\<close> is modelled by the real number it stands for. Every
  floating-point operation of the program is the exact operation followed by the rounding
  of the platform, \<open>round_to\<close>; the rounding is a parameter of the model, so that what
  is proved holds for the 32-bit format of the ATmega targets and for the 64-bit format
  alike. Negation and comparison are exact. Infinities and NaN arise from a division by
  zero only, which is a fault of the model.

  The conversion of a \<open>double\<close> to \<open>uint16_t\<close> discards the fraction. When the result
  does not fit the type the C standard leaves the value open; the program goes on with
  whatever 16-bit value the platform delivers, the parameter \<open>out_of_range\<close>.
\<close>

record fpu =
  round_to :: "real \<Rightarrow> real"
  out_of_range :: "real \<Rightarrow> int"

text \<open>\<open>(double)n\<close> for an integer \<open>n\<close>, and the value of a decimal literal.\<close>

definition dbl :: "fpu \<Rightarrow> int \<Rightarrow> real" where
  "dbl fp n = round_to fp (real_of_int n)"

definition lit :: "fpu \<Rightarrow> real \<Rightarrow> real" where
  "lit fp x = round_to fp x"

definition fadd :: "fpu \<Rightarrow> real \<Rightarrow> real \<Rightarrow> real" where
  "fadd fp a b = round_to fp (a + b)"

definition fsub :: "fpu \<Rightarrow> real \<Rightarrow> real \<Rightarrow> real" where
  "fsub fp a b = round_to fp (a - b)"

definition fmul :: "fpu \<Rightarrow> real \<Rightarrow> real \<Rightarrow> real" where
  "fmul fp a b = round_to fp (a * b)"

text \<open>Division by a floating-point divisor.\<close>

definition fquot :: "fpu \<Rightarrow> real \<Rightarrow> real \<Rightarrow> fault + real" where
  "fquot fp a b = (if b = 0 then Inl ZeroDivisor else Inr (round_to fp (a / b)))"

text \<open>Floating division \<open>(double)a / b\<close> of two integers.\<close>

definition fdiv :: "fpu \<Rightarrow> int \<Rightarrow> int \<Rightarrow> fault + real" where
  "fdiv fp a b = (if b = 0 then Inl ZeroDivisor else Inr (round_to fp (dbl fp a / dbl fp b)))"

definition trunc :: "real \<Rightarrow> int" where
  "trunc x = (if 0 \<le> x then \<lfloor>x\<rfloor> else \<lceil>x\<rceil>)"

definition to_uint16 :: "fpu \<Rightarrow> real \<Rightarrow> int" where
  "to_uint16 fp x =
     (if 0 \<le> trunc x \<and> trunc x < 65536 then trunc x else wrap_u16 (out_of_range fp x))"

text \<open>
  The rounding of the binary formats, for concrete runs: \<open>nearest p\<close> rounds to \<open>p\<close>
  significant bits, to nearest and to even on a tie. \<open>expo\<close> finds the binary exponent
  of a positive number within the given number of steps, far more than either format's
  exponent range. The exponent is not bounded, so \<open>nearest 24\<close> and \<open>nearest 53\<close> are
  the roundings of the 32-bit and of the 64-bit format wherever the result is neither
  subnormal nor beyond the largest finite value.
\<close>

fun expo :: "nat \<Rightarrow> real \<Rightarrow> int" where
  "expo 0 a = 0"
| "expo (Suc n) a =
     (if 2 \<le> a then expo n (a / 2) + 1 else if a < 1 then expo n (a * 2) - 1 else 0)"

definition pow2 :: "int \<Rightarrow> real" where
  "pow2 k = (if 0 \<le> k then 2 ^ nat k else 1 / 2 ^ nat (- k))"

definition half_even :: "real \<Rightarrow> int" where
  "half_even n =
     (let f = \<lfloor>n\<rfloor> in
      if n - real_of_int f < 1 / 2 then f
      else if 1 / 2 < n - real_of_int f then f + 1
      else if even f then f else f + 1)"

definition nearest :: "nat \<Rightarrow> real \<Rightarrow> real" where
  "nearest p x =
     (if x = 0 then 0
      else (let q = pow2 (expo 2000 \<bar>x\<bar> - int p + 1)
            in sgn x * real_of_int (half_even (\<bar>x\<bar> / q)) * q))"

definition binary32 :: "(real \<Rightarrow> int) \<Rightarrow> fpu" where
  "binary32 oor = \<lparr> round_to = nearest 24, out_of_range = oor \<rparr>"

definition binary64 :: "(real \<Rightarrow> int) \<Rightarrow> fpu" where
  "binary64 oor = \<lparr> round_to = nearest 53, out_of_range = oor \<rparr>"

text \<open>
  Modelled from the spec: the Arduino core's macro \<open>constrain(amt, low, high)\<close> is not part
  of the repository; the spec's \<open>clamp(newDuty, DUTY_MIN, DUTY_MAX)\<close> is the value itself
  when it lies between the bounds, and the nearer bound otherwise.
\<close>

definition constrain :: "int \<Rightarrow> int \<Rightarrow> int \<Rightarrow> int" where
  "constrain amt low high = (if amt < low then low else if amt > high then high else amt)"

section \<open>Configuration, state, inputs and outputs\<close>

text \<open>
  The preprocessor constants and gain constants of a sketch. Each sketch defines the ones it
  uses; the values of the five controllers are given below.
\<close>

record config =
  NUM_AVERAGES :: int
  DUTY_CYCLE_INCREMENT :: int
  VOLTAGE_ERROR_RANGE :: int
  CURRENT_ERROR_RANGE :: int
  LOW_SIDE_MAX_VOLTAGE :: int
  LOW_VOLTAGE_RESET :: int
  HIGH_VOLTAGE_RESET :: int
  SAFETY_ENABLE :: bool
  kp :: real
  ki :: real

text \<open>\<open>MPPT_wider_ranges_AVG_no_PID.cpp\<close>: incremental conductance on averaged samples.\<close>

definition mppt_config :: config where
  "mppt_config = \<lparr> NUM_AVERAGES = 1000, DUTY_CYCLE_INCREMENT = 20, VOLTAGE_ERROR_RANGE = 10,
     CURRENT_ERROR_RANGE = 20, LOW_SIDE_MAX_VOLTAGE = 15000, LOW_VOLTAGE_RESET = 0,
     HIGH_VOLTAGE_RESET = 0, SAFETY_ENABLE = False, kp = 0, ki = 0 \<rparr>"

text \<open>The sketch with PI regulation followed by averaged incremental conductance.\<close>

definition pid_mppt_config :: config where
  "pid_mppt_config = \<lparr> NUM_AVERAGES = 1000, DUTY_CYCLE_INCREMENT = 20, VOLTAGE_ERROR_RANGE = 10,
     CURRENT_ERROR_RANGE = 20, LOW_SIDE_MAX_VOLTAGE = 15000, LOW_VOLTAGE_RESET = 0,
     HIGH_VOLTAGE_RESET = 0, SAFETY_ENABLE = False, kp = 3 / 10, ki = 1 / 20 \<rparr>"

text \<open>\<open>PID_MPPT_wider_ranges.old\<close>: PI regulation and unaveraged incremental conductance.\<close>

definition old_config :: config where
  "old_config = \<lparr> NUM_AVERAGES = 0, DUTY_CYCLE_INCREMENT = 20, VOLTAGE_ERROR_RANGE = 100,
     CURRENT_ERROR_RANGE = 200, LOW_SIDE_MAX_VOLTAGE = 0, LOW_VOLTAGE_RESET = 0,
     HIGH_VOLTAGE_RESET = 0, SAFETY_ENABLE = False, kp = 3 / 10, ki = 1 / 20 \<rparr>"

text \<open>The voltage-targeting buck converter: PI regulation only.\<close>

definition buck_config :: config where
  "buck_config = \<lparr> NUM_AVERAGES = 0, DUTY_CYCLE_INCREMENT = 0, VOLTAGE_ERROR_RANGE = 0,
     CURRENT_ERROR_RANGE = 0, LOW_SIDE_MAX_VOLTAGE = 0, LOW_VOLTAGE_RESET = 0,
     HIGH_VOLTAGE_RESET = 0, SAFETY_ENABLE = False, kp = 3 / 10, ki = 0 \<rparr>"


text \<open>
  The file-scope variables of the sketches. Every sketch declares a subset of them, and
  its tick reads and writes only those.
\<close>

record state =
  dutyCycle :: int
  VOLTAGE_SAFETY :: bool
  avgCount :: int
  avgLowCurrentSum :: int
  avgHighCurrentSum :: int
  avgLowVoltageSum :: int
  avgHighVoltageSum :: int
  avgLowCurrent :: int
  avgPrevLowCurrent :: int
  avgLowVoltage :: int
  avgPrevLowVoltage :: int
  avgHighCurrent :: int
  avgHighVoltage :: int
  dV :: int
  dI :: int
  desiredLowVoltage :: int
  actualLowVoltage :: int
  integralControl :: real
  actualLowCurrent :: int
  prevActualLowVoltage :: int
  prevActualLowCurrent :: int
  slowInterruptCounter :: int
  lowCurrent :: int
  prevLowCurrent :: int
  lowVoltage :: int
  prevLowVoltage :: int
  highCurrent :: int
  highVoltage :: int

text \<open>
  What one tick reads from the hardware layer: the values returned by \<open>getIL()\<close>,
  \<open>getIH()\<close>, \<open>getCalibratedVL()\<close> and \<open>getCalibratedVH()\<close> (AtverterE sketches; the
  PI sketch with averaging reads the low-side voltage a second time when it accumulates),
  and by \<open>getV2()\<close>, \<open>getI2()\<close>, \<open>getV1()\<close>, \<open>getI1()\<close> and \<open>isGateShutdown()\<close>
  (AtverterH sketch).
\<close>

record readings =
  getIL :: int
  getIH :: int
  getCalibratedVL :: int
  getCalibratedVL2 :: int
  getCalibratedVH :: int
  getV2 :: int
  getI2 :: int
  getV1 :: int
  getI1 :: int
  isGateShutdown :: bool

text \<open>
  What one tick hands to the outside: the duty cycles passed to \<open>setDutyCycle\<close> and the
  two safety messages printed on the serial line. Telemetry, debug output and the
  heartbeat LED are not modelled.
\<close>

datatype event = SetDutyCycle int | SerialPrint string

section \<open>Incremental-conductance decision\<close>

text \<open>
  The decision of the three sketches that compare the deltas against both error ranges
  (lines 135 to 197 of \<open>MPPT_wider_ranges_AVG_no_PID.cpp\<close>, and the same statements in
  \<open>part_001\<close> and \<open>part_002\<close> with their own constants). The
  result is the amount added to \<open>dutyCycle\<close>. Branch 1 (\<open>dV ~= 0\<close>) looks at \<open>dI\<close> alone.
\<close>

definition ic_branch1 :: "config \<Rightarrow> int \<Rightarrow> int" where
  "ic_branch1 c di =
     (if di > CURRENT_ERROR_RANGE c then DUTY_CYCLE_INCREMENT c
      else if di < - CURRENT_ERROR_RANGE c then - DUTY_CYCLE_INCREMENT c
      else 0)"

text \<open>
  Branch 2 compares \<open>(double)dI / dV\<close> with
  \<open>-((double)I / V + CURRENT_ERROR_RANGE / VOLTAGE_ERROR_RANGE)\<close> and
  \<open>-((double)I / V - CURRENT_ERROR_RANGE / VOLTAGE_ERROR_RANGE)\<close>; the quotient of the two
  ranges is an integer division, converted to \<open>double\<close> for the sum and the difference.
\<close>

definition ic_branch2 :: "fpu \<Rightarrow> config \<Rightarrow> int \<Rightarrow> int \<Rightarrow> int \<Rightarrow> int \<Rightarrow> fault + int" where
  "ic_branch2 fp c dv di i v =
     (case fdiv fp di dv of
        Inl e \<Rightarrow> Inl e
      | Inr r \<Rightarrow>
         (case fdiv fp i v of
            Inl e \<Rightarrow> Inl e
          | Inr g \<Rightarrow>
             (let t = dbl fp (c_div (CURRENT_ERROR_RANGE c) (VOLTAGE_ERROR_RANGE c)) in
              if r > - (fadd fp g t) \<and> r > - (fsub fp g t) then Inr (DUTY_CYCLE_INCREMENT c)
              else if r < - (fadd fp g t) \<and> r < - (fsub fp g t)
              then Inr (- DUTY_CYCLE_INCREMENT c)
              else Inr 0)))"

definition ic_decision :: "fpu \<Rightarrow> config \<Rightarrow> int \<Rightarrow> int \<Rightarrow> int \<Rightarrow> int \<Rightarrow> fault + int" where
  "ic_decision fp c dv di i v =
     (if - VOLTAGE_ERROR_RANGE c < dv \<and> dv < VOLTAGE_ERROR_RANGE c
      then Inr (ic_branch1 c di)
      else ic_branch2 fp c dv di i v)"

text \<open>
  The protective duty cycle of the safety branch,
  \<open>dutyCycle = ((12000 / getCalibratedVH()) * 1024)\<close>: a 32-bit integer division and
  product, stored in the 16-bit \<open>dutyCycle\<close>.
\<close>

definition protective_duty :: "int \<Rightarrow> fault + int" where
  "protective_duty vh =
     (case int_div 12000 vh of
        Inl e \<Rightarrow> Inl e
      | Inr q \<Rightarrow> Inr (wrap_u16 (wrap_s32 (q * 1024))))"

definition msg_shutoff :: string where
  "msg_shutoff = ''Safety Shutoff Triggered'' @ [CHR 0x0A]"

definition msg_overvoltage :: string where
  "msg_overvoltage = ''Low Side Overvoltage'' @ [CHR 0x0A]"

section \<open>The incremental-conductance controller with averaging\<close>

text \<open>
  \<open>controlUpdate\<close> of \<open>MPPT_wider_ranges_AVG_no_PID.cpp\<close> (lines 87 to 217). The two
  current sums are \<open>int\<close>, the two voltage sums \<open>int32_t\<close>, the counter \<open>int16_t\<close>.
  \<open>mppt_accumulate\<close> is lines 102 to 108, \<open>averages\<close> lines 120 to 124,
  \<open>overvoltage_check\<close> lines 129 to 133, \<open>reset_window\<close> lines 199 to 209, and
  \<open>safety_branch\<close> lines 92 to 95.
\<close>

definition mppt_accumulate :: "readings \<Rightarrow> state \<Rightarrow> state" where
  "mppt_accumulate r s =
     s\<lparr> avgLowCurrentSum := wrap_s16 (avgLowCurrentSum s + getIL r),
        avgHighCurrentSum := wrap_s16 (avgHighCurrentSum s + getIH r),
        avgLowVoltageSum := wrap_s32 (avgLowVoltageSum s + getCalibratedVL r),
        avgHighVoltageSum := wrap_s32 (avgHighVoltageSum s + getCalibratedVH r),
        avgCount := wrap_s16 (avgCount s + 1) \<rparr>"

definition averages :: "config \<Rightarrow> state \<Rightarrow> state" where
  "averages c s =
     s\<lparr> avgLowCurrent := c_div (avgLowCurrentSum s) (NUM_AVERAGES c + 1),
        avgLowVoltage := c_div (avgLowVoltageSum s) (NUM_AVERAGES c + 1),
        avgHighCurrent := c_div (avgHighCurrentSum s) (NUM_AVERAGES c + 1),
        avgHighVoltage := c_div (avgHighVoltageSum s) (NUM_AVERAGES c + 1) \<rparr>"

definition overvoltage_check :: "config \<Rightarrow> state \<Rightarrow> state \<times> event list" where
  "overvoltage_check c s =
     (if avgLowVoltage s > LOW_SIDE_MAX_VOLTAGE c
      then (s\<lparr> VOLTAGE_SAFETY := True \<rparr>, [SerialPrint msg_overvoltage])
      else (s, []))"

definition reset_window :: "state \<Rightarrow> state" where
  "reset_window s =
     s\<lparr> avgCount := 0,
        avgPrevLowCurrent := avgLowCurrent s,
        avgPrevLowVoltage := avgLowVoltage s,
        avgLowCurrentSum := 0,
        avgLowVoltageSum := 0,
        avgHighCurrentSum := 0,
        avgHighVoltageSum := 0 \<rparr>"

definition mppt_close :: "fpu \<Rightarrow> config \<Rightarrow> state \<Rightarrow> fault + state \<times> event list" where
  "mppt_close fp c s0 =
     (let s1 = averages c s0;
          s2 = s1\<lparr> dV := wrap_s32 (avgLowVoltage s1 - avgPrevLowVoltage s1),
                   dI := wrap_s16 (avgLowCurrent s1 - avgPrevLowCurrent s1) \<rparr>;
          (s3, msgs) = overvoltage_check c s2
      in case ic_decision fp c (dV s3) (dI s3) (avgLowCurrent s3) (avgLowVoltage s3) of
           Inl e \<Rightarrow> Inl e
         | Inr delta \<Rightarrow>
            (let s4 = s3\<lparr> dutyCycle := wrap_u16 (dutyCycle s3 + delta) \<rparr>;
                 s5 = reset_window s4;
                 s6 = s5\<lparr> dutyCycle := constrain (dutyCycle s5) 10 1023 \<rparr>
             in Inr (s6, msgs @ [SetDutyCycle (dutyCycle s6)])))"

definition safety_branch :: "readings \<Rightarrow> state \<Rightarrow> fault + state \<times> event list" where
  "safety_branch r s =
     (case protective_duty (getCalibratedVH r) of
        Inl e \<Rightarrow> Inl e
      | Inr d \<Rightarrow> Inr (s\<lparr> dutyCycle := d \<rparr>, [SetDutyCycle d, SerialPrint msg_shutoff]))"

definition controlUpdate_mppt :: "fpu \<Rightarrow> config \<Rightarrow> readings \<Rightarrow> state \<Rightarrow> fault + state \<times> event list" where
  "controlUpdate_mppt fp c r s =
     (if SAFETY_ENABLE c \<and> VOLTAGE_SAFETY s then safety_branch r s
      else
        (let s1 = mppt_accumulate r s in
         if avgCount s1 = NUM_AVERAGES c then mppt_close fp c s1 else Inr (s1, [])))"

section \<open>PI voltage regulation\<close>

text \<open>
  The regulation part of \<open>controlUpdate\<close> in the three sketches that regulate the
  low-side voltage. They differ in two places only: the divisor of the percent error is
  \<open>(double)actualLowVoltage\<close> in the two PI sketches with incremental conductance and
  \<open>(double)actualLowVoltage + 1\<close> in the buck converter (parameter \<open>guarded\<close>), and the
  upper bound of \<open>constrain\<close> is 1023 or 1014 (parameter \<open>hi\<close>).

  \<open>pi_terms\<close> gives \<open>proportionalControl\<close> and the amount added to
  \<open>integralControl\<close>. The statement \<open>dutyCycle += (double)dutyCycle * (...)\<close> adds in
  \<open>double\<close> and converts the sum to \<open>uint16_t\<close>.
\<close>

definition percent_error :: "fpu \<Rightarrow> bool \<Rightarrow> int \<Rightarrow> int \<Rightarrow> fault + real" where
  "percent_error fp guarded voltageError vl =
     (if guarded then fquot fp (dbl fp voltageError) (fadd fp (dbl fp vl) (dbl fp 1))
      else fdiv fp voltageError vl)"

definition pi_terms :: "fpu \<Rightarrow> config \<Rightarrow> bool \<Rightarrow> int \<Rightarrow> int \<Rightarrow> fault + real \<times> real" where
  "pi_terms fp c guarded voltageError vl =
     (case percent_error fp guarded voltageError vl of
        Inl e \<Rightarrow> Inl e
      | Inr q \<Rightarrow> Inr (- (fmul fp (lit fp (kp c)) q), - (fmul fp (lit fp (ki c)) q)))"

definition scaled_duty :: "fpu \<Rightarrow> int \<Rightarrow> real \<Rightarrow> int" where
  "scaled_duty fp d x = to_uint16 fp (fadd fp (dbl fp d) (fmul fp (dbl fp d) x))"

definition pi_regulate :: "fpu \<Rightarrow> config \<Rightarrow> bool \<Rightarrow> int \<Rightarrow> int \<Rightarrow> state \<Rightarrow> fault + state" where
  "pi_regulate fp c guarded hi vl s =
     (let s1 = s\<lparr> actualLowVoltage := vl \<rparr>;
          voltageError = wrap_s32 (actualLowVoltage s1 - desiredLowVoltage s1)
      in case pi_terms fp c guarded voltageError (actualLowVoltage s1) of
           Inl e \<Rightarrow> Inl e
         | Inr (proportionalControl, increment) \<Rightarrow>
            (let s2 = s1\<lparr> integralControl := fadd fp (integralControl s1) increment \<rparr>;
                 d = scaled_duty fp (dutyCycle s2)
                       (fadd fp proportionalControl (integralControl s2))
             in Inr (s2\<lparr> dutyCycle := constrain d 10 hi \<rparr>)))"

text \<open>
  \<open>controlUpdate\<close> of the voltage-targeting buck converter (the third sketch of
  \<open>MPPT_wider_ranges_AVG_no_PID.cpp\<close>, lines 421 to 471).
\<close>

definition controlUpdate_buck :: "fpu \<Rightarrow> config \<Rightarrow> readings \<Rightarrow> state \<Rightarrow> fault + state \<times> event list" where
  "controlUpdate_buck fp c r s =
     (case pi_regulate fp c True 1014 (getCalibratedVL r) s of
        Inl e \<Rightarrow> Inl e
      | Inr s1 \<Rightarrow> Inr (s1, [SetDutyCycle (dutyCycle s1)]))"

section \<open>PI regulation followed by averaged incremental conductance\<close>

text \<open>
  \<open>controlUpdate\<close> of the sketch that regulates on every tick (\<open>part_001\<close>, lines 103 to
  284; regulation lines 118 to 158, closing lines 170 to 262, accumulation lines 266 to
  281) and, once \<open>avgCount\<close> has reached \<open>NUM_AVERAGES\<close>, closes the window instead of
  accumulating. All sums are
  \<open>int32_t\<close> here. The duty cycle is handed to the actuator after the regulation; the
  change made by the incremental-conductance decision is handed over by the next tick.
\<close>

definition pid_accumulate :: "readings \<Rightarrow> state \<Rightarrow> state" where
  "pid_accumulate r s =
     s\<lparr> avgLowCurrentSum := wrap_s32 (avgLowCurrentSum s + getIL r),
        avgLowVoltageSum := wrap_s32 (avgLowVoltageSum s + getCalibratedVL2 r),
        avgHighCurrentSum := wrap_s32 (avgHighCurrentSum s + getIH r),
        avgHighVoltageSum := wrap_s32 (avgHighVoltageSum s + getCalibratedVH r),
        avgCount := wrap_s16 (avgCount s + 1) \<rparr>"

definition pid_close :: "fpu \<Rightarrow> config \<Rightarrow> state \<Rightarrow> fault + state \<times> event list" where
  "pid_close fp c s0 =
     (let s1 = averages c s0;
          s2 = s1\<lparr> dV := wrap_s32 (avgLowVoltage s1 - avgPrevLowVoltage s1),
                   dI := wrap_s32 (avgLowCurrent s1 - avgPrevLowCurrent s1) \<rparr>;
          (s3, msgs) = overvoltage_check c s2
      in case ic_decision fp c (dV s3) (dI s3) (avgLowCurrent s3) (avgLowVoltage s3) of
           Inl e \<Rightarrow> Inl e
         | Inr delta \<Rightarrow>
            Inr (reset_window (s3\<lparr> dutyCycle := wrap_u16 (dutyCycle s3 + delta) \<rparr>), msgs))"

definition controlUpdate_pid_mppt :: "fpu \<Rightarrow> config \<Rightarrow> readings \<Rightarrow> state \<Rightarrow> fault + state \<times> event list" where
  "controlUpdate_pid_mppt fp c r s =
     (if SAFETY_ENABLE c \<and> VOLTAGE_SAFETY s then safety_branch r s
      else
        (case pi_regulate fp c False 1023 (getCalibratedVL r) s of
           Inl e \<Rightarrow> Inl e
         | Inr s1 \<Rightarrow>
            (if avgCount s1 = NUM_AVERAGES c
             then (case pid_close fp c s1 of
                     Inl e \<Rightarrow> Inl e
                   | Inr (s2, msgs) \<Rightarrow> Inr (s2, SetDutyCycle (dutyCycle s1) # msgs))
             else Inr (pid_accumulate r s1, [SetDutyCycle (dutyCycle s1)]))))"

section \<open>The superseded PI and incremental-conductance sketch\<close>

text \<open>
  \<open>controlUpdate\<close> of \<open>PID_MPPT_wider_ranges.old\<close> (lines 81 to 163; the decision is
  lines 141 to 159). Its voltage test is the chained
  comparison \<open>-VOLTAGE_ERROR_RANGE < dV < VOLTAGE_ERROR_RANGE\<close>, which compares the truth
  value of the first comparison with the range; its second current test is
  \<open>dI < CURRENT_ERROR_RANGE\<close>; its ratios are integer divisions.
\<close>

definition old_ic_decision :: "config \<Rightarrow> int \<Rightarrow> int \<Rightarrow> int \<Rightarrow> int \<Rightarrow> fault + int" where
  "old_ic_decision c dv di i v =
     (if (if - VOLTAGE_ERROR_RANGE c < dv then 1 else 0) < VOLTAGE_ERROR_RANGE c
      then
        (if di > CURRENT_ERROR_RANGE c then Inr (DUTY_CYCLE_INCREMENT c)
         else if di < CURRENT_ERROR_RANGE c then Inr (- DUTY_CYCLE_INCREMENT c)
         else Inr 0)
      else
        (case int_div di dv of
           Inl e \<Rightarrow> Inl e
         | Inr q \<Rightarrow>
            (case int_div (wrap_s32 (- i)) v of
               Inl e \<Rightarrow> Inl e
             | Inr g \<Rightarrow> if q > g then Inr (DUTY_CYCLE_INCREMENT c) else Inr 0)))"

definition controlUpdate_old :: "fpu \<Rightarrow> config \<Rightarrow> readings \<Rightarrow> state \<Rightarrow> fault + state \<times> event list" where
  "controlUpdate_old fp c r s =
     (case pi_regulate fp c False 1014 (getCalibratedVL r) s of
        Inl e \<Rightarrow> Inl e
      | Inr s1 \<Rightarrow>
         (let s2 = s1\<lparr> actualLowCurrent := getIL r \<rparr>;
              s3 = s2\<lparr> dV := wrap_s32 (actualLowVoltage s2 - prevActualLowVoltage s2),
                       dI := wrap_s32 (actualLowCurrent s2 - prevActualLowCurrent s2) \<rparr>
          in case old_ic_decision c (dV s3) (dI s3) (actualLowCurrent s3) (actualLowVoltage s3) of
               Inl e \<Rightarrow> Inl e
             | Inr delta \<Rightarrow>
                Inr (s3\<lparr> dutyCycle := wrap_u16 (dutyCycle s3 + delta),
                         prevActualLowVoltage := actualLowVoltage s3,
                         prevActualLowCurrent := actualLowCurrent s3 \<rparr>,
                     [SetDutyCycle (dutyCycle s1)])))"

section \<open>The AtverterH sketch\<close>



section \<open>Runs and observations\<close>

text \<open>A run of ticks, one reading per tick; it stops at the first fault.\<close>

fun run :: "(readings \<Rightarrow> state \<Rightarrow> fault + state \<times> event list) \<Rightarrow> readings list \<Rightarrow> state
    \<Rightarrow> fault + state \<times> event list" where
  "run tick [] s = Inr (s, [])"
| "run tick (r # rs) s =
     (case tick r s of
        Inl e \<Rightarrow> Inl e
      | Inr (s1, ev1) \<Rightarrow>
         (case run tick rs s1 of
            Inl e \<Rightarrow> Inl e
          | Inr (s2, ev2) \<Rightarrow> Inr (s2, ev1 @ ev2)))"

text \<open>The duty cycles handed to the actuator, in order.\<close>

fun duty_writes :: "event list \<Rightarrow> int list" where
  "duty_writes [] = []"
| "duty_writes (SetDutyCycle d # es) = d # duty_writes es"
| "duty_writes (SerialPrint m # es) = duty_writes es"

text \<open>
  The variables as the program starts: zero unless the sketch gives an initialiser, then
  the assignments of \<open>setup\<close>.
\<close>

definition globals_init :: state where
  "globals_init = \<lparr> dutyCycle = 0, VOLTAGE_SAFETY = False, avgCount = 0,
     avgLowCurrentSum = 0, avgHighCurrentSum = 0, avgLowVoltageSum = 0, avgHighVoltageSum = 0,
     avgLowCurrent = 0, avgPrevLowCurrent = 0, avgLowVoltage = 0, avgPrevLowVoltage = 0,
     avgHighCurrent = 0, avgHighVoltage = 0, dV = 0, dI = 0, desiredLowVoltage = 0,
     actualLowVoltage = 0, integralControl = 0, actualLowCurrent = 0,
     prevActualLowVoltage = 1, prevActualLowCurrent = 1, slowInterruptCounter = 0,
     lowCurrent = 0, prevLowCurrent = 0, lowVoltage = 0, prevLowVoltage = 0,
     highCurrent = 0, highVoltage = 0 \<rparr>"

definition setup_mppt :: state where
  "setup_mppt = globals_init\<lparr> dutyCycle := 512 \<rparr>"


text \<open>
  \<open>setup\<close> of the regulating sketches:
  \<open>dutyCycle = (desiredLowVoltage * 1024) / actualHighVoltage\<close> with the high-side voltage
  read at start-up.
\<close>

definition setup_pi :: "int \<Rightarrow> int \<Rightarrow> fault + state" where
  "setup_pi desired vh =
     (case int_div (wrap_s32 (desired * 1024)) vh of
        Inl e \<Rightarrow> Inl e
      | Inr d \<Rightarrow> Inr (globals_init\<lparr> desiredLowVoltage := desired, dutyCycle := wrap_u16 d \<rparr>))"

text \<open>The sum of one reading over the ticks of a window.\<close>

definition total :: "(readings \<Rightarrow> int) \<Rightarrow> readings list \<Rightarrow> int" where
  "total f rs = sum_list (map f rs)"

text \<open>Readings with every value zero, as a base for concrete inputs.\<close>

definition quiet :: readings where
  "quiet = \<lparr> getIL = 0, getIH = 0, getCalibratedVL = 0, getCalibratedVL2 = 0,
     getCalibratedVH = 0, getV2 = 0, getI2 = 0, getV1 = 0, getI1 = 0, isGateShutdown = False \<rparr>"

section \<open>Arithmetic lemmas\<close>

lemma c_div_small: "0 \<le> a \<Longrightarrow> a < b \<Longrightarrow> c_div a b = 0"
  by (simp add: c_div_def)

lemma c_div_one: "0 < b \<Longrightarrow> b \<le> a \<Longrightarrow> a < 2 * b \<Longrightarrow> c_div a b = 1"
proof -
  assume b: "0 < b" and le: "b \<le> a" and lt: "a < 2 * b"
  have "a div b = 1"
    by (rule int_div_pos_eq [of a b 1 "a - b"]) (use b le lt in auto)
  with b le show ?thesis by (simp add: c_div_def)
qed

lemma protective_duty_high: "12000 < vh \<Longrightarrow> protective_duty vh = Inr 0"
  by (simp add: protective_duty_def int_div_def c_div_small wrap_u16_def wrap_s32_def)

lemma protective_duty_mid: "6000 < vh \<Longrightarrow> vh \<le> 12000 \<Longrightarrow> protective_duty vh = Inr 1024"
  by (simp add: protective_duty_def int_div_def c_div_one wrap_u16_def wrap_s32_def)

text \<open>Unfolding the exponent search on a numeral, for concrete runs.\<close>

lemma expo_numeral:
  "expo (numeral k) a =
     (if 2 \<le> a then expo (pred_numeral k) (a / 2) + 1
      else if a < 1 then expo (pred_numeral k) (a * 2) - 1 else 0)"
  by (simp add: numeral_eq_Suc)

text \<open>
  Rounding is unfolded on literals only, so that a value is rounded once it is known.
\<close>

lemma nearest_zero: "nearest p 0 = 0"
  by (simp add: nearest_def)

lemma nearest_minus: "nearest p (- x) = - nearest p x"
  by (simp add: nearest_def Let_def)

lemmas nearest_eval = nearest_zero nearest_minus nearest_def [of _ 1]
  nearest_def [of _ "numeral a" for a] nearest_def [of _ "1 / numeral b" for b]
  nearest_def [of _ "numeral a / numeral b" for a b]

lemmas fp_eval = dbl_def lit_def fadd_def fsub_def fmul_def fquot_def fdiv_def to_uint16_def
  scaled_duty_def trunc_def nearest_eval pow2_def half_even_def expo_numeral
  binary32_def binary64_def

section \<open>The protective duty cycle\<close>

text \<open>
  Claim C10. The protective duty cycle is \<open>(12000 / getCalibratedVH()) * 1024\<close> in integer
  arithmetic. In both sketches with a safety branch, a tick that takes the branch (the
  sketch compiled with \<open>SAFETY_ENABLE\<close>, the flag set) hands the actuator exactly 0 when the
  calibrated high-side voltage is above 12000 mV, and exactly 1024 when it is above 6000 mV
  and at most 12000 mV.
\<close>

theorem protective_duty_step:
  assumes "SAFETY_ENABLE c" and "VOLTAGE_SAFETY s"
  shows "(12000 < getCalibratedVH r \<longrightarrow>
            protective_duty (getCalibratedVH r) = Inr 0 \<and>
            controlUpdate_mppt fp c r s
              = Inr (s\<lparr> dutyCycle := 0 \<rparr>, [SetDutyCycle 0, SerialPrint msg_shutoff]) \<and>
            controlUpdate_pid_mppt fp c r s
              = Inr (s\<lparr> dutyCycle := 0 \<rparr>, [SetDutyCycle 0, SerialPrint msg_shutoff])) \<and>
         (6000 < getCalibratedVH r \<and> getCalibratedVH r \<le> 12000 \<longrightarrow>
            protective_duty (getCalibratedVH r) = Inr 1024 \<and>
            controlUpdate_mppt fp c r s
              = Inr (s\<lparr> dutyCycle := 1024 \<rparr>, [SetDutyCycle 1024, SerialPrint msg_shutoff]) \<and>
            controlUpdate_pid_mppt fp c r s
              = Inr (s\<lparr> dutyCycle := 1024 \<rparr>, [SetDutyCycle 1024, SerialPrint msg_shutoff]))"
  using assms
  by (simp add: controlUpdate_mppt_def controlUpdate_pid_mppt_def safety_branch_def
      protective_duty_high protective_duty_mid)

theorem protective_duty_step_witness:
  "SAFETY_ENABLE (mppt_config\<lparr> SAFETY_ENABLE := True \<rparr>) \<and>
   VOLTAGE_SAFETY (setup_mppt\<lparr> VOLTAGE_SAFETY := True \<rparr>) \<and>
   (\<forall>fp. duty_writes (snd (projr (controlUpdate_mppt fp (mppt_config\<lparr> SAFETY_ENABLE := True \<rparr>)
       (quiet\<lparr> getCalibratedVH := 13000 \<rparr>) (setup_mppt\<lparr> VOLTAGE_SAFETY := True \<rparr>)))) = [0]) \<and>
   (\<forall>fp. duty_writes (snd (projr (controlUpdate_pid_mppt fp (mppt_config\<lparr> SAFETY_ENABLE := True \<rparr>)
       (quiet\<lparr> getCalibratedVH := 9000 \<rparr>) (setup_mppt\<lparr> VOLTAGE_SAFETY := True \<rparr>)))) = [1024])"
proof -
  have "duty_writes (snd (projr (controlUpdate_mppt fp (mppt_config\<lparr> SAFETY_ENABLE := True \<rparr>)
       (quiet\<lparr> getCalibratedVH := 13000 \<rparr>) (setup_mppt\<lparr> VOLTAGE_SAFETY := True \<rparr>)))) = [0]"
    and "duty_writes (snd (projr (controlUpdate_pid_mppt fp (mppt_config\<lparr> SAFETY_ENABLE := True \<rparr>)
       (quiet\<lparr> getCalibratedVH := 9000 \<rparr>) (setup_mppt\<lparr> VOLTAGE_SAFETY := True \<rparr>)))) = [1024]"
    for fp
    using protective_duty_step [of "mppt_config\<lparr> SAFETY_ENABLE := True \<rparr>"
        "setup_mppt\<lparr> VOLTAGE_SAFETY := True \<rparr>" "quiet\<lparr> getCalibratedVH := 13000 \<rparr>" fp]
      protective_duty_step [of "mppt_config\<lparr> SAFETY_ENABLE := True \<rparr>"
        "setup_mppt\<lparr> VOLTAGE_SAFETY := True \<rparr>" "quiet\<lparr> getCalibratedVH := 9000 \<rparr>" fp]
    by (simp_all add: mppt_config_def setup_mppt_def globals_init_def quiet_def)
  then show ?thesis by simp
qed

section \<open>The incremental-conductance decision\<close>

lemma ic_decision_branch1:
  "- VOLTAGE_ERROR_RANGE c < dv \<Longrightarrow> dv < VOLTAGE_ERROR_RANGE c
    \<Longrightarrow> ic_decision fp c dv di i v = Inr (ic_branch1 c di)"
  by (simp add: ic_decision_def)

text \<open>
  In the three sketches that test \<open>dI\<close> against both signs of the range, a current delta
  inside the band leaves the duty cycle alone when the voltage has not moved.
\<close>

lemma ic_decision_hold:
  "0 < VOLTAGE_ERROR_RANGE c \<Longrightarrow> \<bar>di\<bar> \<le> CURRENT_ERROR_RANGE c
    \<Longrightarrow> ic_decision fp c 0 di i v = Inr 0"
  by (auto simp: ic_decision_def ic_branch1_def)

lemma old_ic_no_division:
  "1 < VOLTAGE_ERROR_RANGE c \<Longrightarrow> \<exists>d. old_ic_decision c dv di i v = Inr d"
  by (simp add: old_ic_decision_def)

lemma setup_pi_12V: "setup_pi 8000 12000 = Inr (globals_init\<lparr> desiredLowVoltage := 8000, dutyCycle := 682 \<rparr>)"
  by (simp add: setup_pi_def int_div_def c_div_def wrap_s32_def wrap_u16_def)

text \<open>
  Claim C4, as amended. With a positive voltage range, an input with \<open>dV = 0\<close> takes
  branch 1, which divides nothing, so \<open>dI / dV\<close> is never evaluated with a zero divisor.
  The divisor of \<open>I / V\<close> has no guard: the decision meets a zero divisor exactly when the
  voltage has moved by at least the range and the averaged voltage itself is 0. The
  superseded sketch always takes its branch 1 (its chained comparison is true for every
  \<open>dV\<close> when the range exceeds 1) and never divides.
\<close>

theorem ic_zero_divisor:
  assumes "0 < VOLTAGE_ERROR_RANGE c"
  shows "(dv = 0 \<longrightarrow> ic_decision fp c dv di i v = Inr (ic_branch1 c di)) \<and>
         (ic_decision fp c dv di i v = Inl ZeroDivisor
            \<longleftrightarrow> VOLTAGE_ERROR_RANGE c \<le> \<bar>dv\<bar> \<and> v = 0) \<and>
         (1 < VOLTAGE_ERROR_RANGE c \<longrightarrow> (\<exists>d. old_ic_decision c dv di i v = Inr d))"
  using assms old_ic_no_division [of c dv di i v]
  by (auto simp: ic_decision_def ic_branch2_def fdiv_def Let_def)

theorem ic_zero_divisor_witness:
  "0 < VOLTAGE_ERROR_RANGE mppt_config \<and>
   (\<forall>fp. ic_decision fp mppt_config 0 25 2000 8000 = Inr 20) \<and>
   (\<forall>fp. ic_decision fp mppt_config 0 25 2000 8000 \<noteq> Inl ZeroDivisor) \<and>
   1 < VOLTAGE_ERROR_RANGE old_config \<and>
   old_ic_decision old_config 0 250 2000 8000 = Inr 20"
proof -
  have "ic_decision fp mppt_config 0 25 2000 8000 = Inr 20"
    and "ic_decision fp mppt_config 0 25 2000 8000 \<noteq> Inl ZeroDivisor"
    and "old_ic_decision old_config 0 250 2000 8000 = Inr 20" for fp
    using ic_zero_divisor [of mppt_config 0 fp 25 2000 8000]
      ic_zero_divisor [of old_config 0 fp 250 2000 8000]
    by (simp_all add: mppt_config_def old_config_def ic_branch1_def old_ic_decision_def)
  then show ?thesis by (simp add: mppt_config_def old_config_def)
qed

text \<open>
  The claim as stated fails where the averaged low-side voltage is 0 after a window whose
  average was 50 mV: a window of 1000 samples of 1 mV and 10 mA averages to 0 mV and 9 mA,
  \<open>dV = -50\<close> takes branch 2, and \<open>I / V\<close> is evaluated with the divisor 0.
\<close>

theorem ic_zero_voltage_counterexample:
  "(\<forall>fp. ic_decision fp mppt_config (- 50) 0 9 0 = Inl ZeroDivisor) \<and>
   (\<forall>fp. controlUpdate_mppt fp mppt_config (quiet\<lparr> getCalibratedVL := 1, getIL := 10 \<rparr>)
     (setup_mppt\<lparr> avgCount := 999, avgLowVoltageSum := 999, avgLowCurrentSum := 9990,
        avgPrevLowVoltage := 50, avgPrevLowCurrent := 9 \<rparr>) = Inl ZeroDivisor)"
  by (simp add: controlUpdate_mppt_def mppt_accumulate_def mppt_close_def averages_def
      overvoltage_check_def ic_decision_def ic_branch2_def fdiv_def mppt_config_def quiet_def
      setup_mppt_def globals_init_def wrap_s16_def wrap_s32_def c_div_def)


text \<open>
  Claim C5. Branch 1 is meant to add the step when \<open>dI\<close> is above the current range, to
  subtract it when \<open>dI\<close> is below the negated range, and to hold otherwise. The sketches
  with the two-sided test do so (\<open>ic_decision_branch1\<close>, \<open>ic_branch1_def\<close>). The
  superseded sketch tests \<open>dI < CURRENT_ERROR_RANGE\<close>: started with 12 V on the high side,
  after a tick reading 8000 mV and 1000 mA, a tick reading 8005 mV and 1025 mA has
  \<open>dV = 5\<close> and \<open>dI = 25\<close>, inside both ranges (100 and 200), and the decision takes 20
  off the regulated duty cycle 701, in single and in double precision.
\<close>

theorem old_branch1_decrements_inside_band:
  "run (controlUpdate_old (binary32 oor) old_config)
     [quiet\<lparr> getCalibratedVL := 8000, getIL := 1000 \<rparr>,
      quiet\<lparr> getCalibratedVL := 8005, getIL := 1025 \<rparr>]
     (globals_init\<lparr> desiredLowVoltage := 8000, dutyCycle := 682 \<rparr>)
   = Inr (globals_init\<lparr> desiredLowVoltage := 8000, dutyCycle := 681, dV := 5, dI := 25,
            actualLowVoltage := 8005, integralControl := - (4292285 / 137438953472),
            actualLowCurrent := 1025, prevActualLowVoltage := 8005,
            prevActualLowCurrent := 1025 \<rparr>,
          [SetDutyCycle 682, SetDutyCycle 701]) \<and>
   run (controlUpdate_old (binary64 oor) old_config)
     [quiet\<lparr> getCalibratedVL := 8000, getIL := 1000 \<rparr>,
      quiet\<lparr> getCalibratedVL := 8005, getIL := 1025 \<rparr>]
     (globals_init\<lparr> desiredLowVoltage := 8000, dutyCycle := 682 \<rparr>)
   = Inr (globals_init\<lparr> desiredLowVoltage := 8000, dutyCycle := 681, dV := 5, dI := 25,
            actualLowVoltage := 8005,
            integralControl := - (4608805514980525 / 147573952589676412928),
            actualLowCurrent := 1025, prevActualLowVoltage := 8005,
            prevActualLowCurrent := 1025 \<rparr>,
          [SetDutyCycle 682, SetDutyCycle 701])"
proof -
  let ?s1 = "globals_init\<lparr> desiredLowVoltage := 8000, dutyCycle := 702, dV := 7999, dI := 999,
    actualLowVoltage := 8000, actualLowCurrent := 1000, prevActualLowVoltage := 8000,
    prevActualLowCurrent := 1000 \<rparr>"
  note tick = controlUpdate_old_def pi_regulate_def pi_terms_def percent_error_def fp_eval
    constrain_def old_ic_decision_def old_config_def quiet_def globals_init_def
    wrap_s32_def wrap_u16_def
  have first: "controlUpdate_old (binary32 oor) old_config
        (quiet\<lparr> getCalibratedVL := 8000, getIL := 1000 \<rparr>)
        (globals_init\<lparr> desiredLowVoltage := 8000, dutyCycle := 682 \<rparr>)
      = Inr (?s1, [SetDutyCycle 682])"
    "controlUpdate_old (binary64 oor) old_config
        (quiet\<lparr> getCalibratedVL := 8000, getIL := 1000 \<rparr>)
        (globals_init\<lparr> desiredLowVoltage := 8000, dutyCycle := 682 \<rparr>)
      = Inr (?s1, [SetDutyCycle 682])"
    by (simp_all add: tick)
  have second: "controlUpdate_old (binary32 oor) old_config
        (quiet\<lparr> getCalibratedVL := 8005, getIL := 1025 \<rparr>) ?s1
      = Inr (globals_init\<lparr> desiredLowVoltage := 8000, dutyCycle := 681, dV := 5, dI := 25,
            actualLowVoltage := 8005, integralControl := - (4292285 / 137438953472),
            actualLowCurrent := 1025, prevActualLowVoltage := 8005,
            prevActualLowCurrent := 1025 \<rparr>, [SetDutyCycle 701])"
    "controlUpdate_old (binary64 oor) old_config
        (quiet\<lparr> getCalibratedVL := 8005, getIL := 1025 \<rparr>) ?s1
      = Inr (globals_init\<lparr> desiredLowVoltage := 8000, dutyCycle := 681, dV := 5, dI := 25,
            actualLowVoltage := 8005,
            integralControl := - (4608805514980525 / 147573952589676412928),
            actualLowCurrent := 1025, prevActualLowVoltage := 8005,
            prevActualLowCurrent := 1025 \<rparr>, [SetDutyCycle 701])"
    by (simp_all add: tick)
  show ?thesis by (simp add: first second)
qed




text \<open>
  Claim C7. With \<open>dV = 0\<close> and \<open>dI\<close> within the current range the duty cycle is meant to
  stay as it is, and it does in the sketches with the two-sided test
  (\<open>ic_decision_hold\<close>). The superseded sketch subtracts the step for every \<open>dI\<close> below
  the range, also for \<open>dI = 0\<close> and \<open>dI = -200\<close>; it holds only at \<open>dI = 200\<close>.
\<close>

theorem old_decision_no_fixpoint:
  "old_ic_decision old_config 0 0 i v = Inr (- 20) \<and>
   old_ic_decision old_config 0 (- 200) i v = Inr (- 20) \<and>
   old_ic_decision old_config 0 199 i v = Inr (- 20) \<and>
   old_ic_decision old_config 0 200 i v = Inr 0"
  by (simp add: old_ic_decision_def old_config_def)

section \<open>Duty cycles handed to the actuator\<close>

lemma constrain_bounds: "low \<le> high \<Longrightarrow> low \<le> constrain amt low high \<and> constrain amt low high \<le> high"
  by (simp add: constrain_def)

lemma duty_writes_append: "duty_writes (xs @ ys) = duty_writes xs @ duty_writes ys"
  by (induction xs rule: duty_writes.induct) simp_all

lemma overvoltage_check_writes: "overvoltage_check c s = (s1, msgs) \<Longrightarrow> duty_writes msgs = []"
  by (auto simp: overvoltage_check_def split: if_splits)

lemma overvoltage_check_fields:
  "dV (fst (overvoltage_check c s)) = dV s"
  "dI (fst (overvoltage_check c s)) = dI s"
  "avgLowCurrent (fst (overvoltage_check c s)) = avgLowCurrent s"
  "avgLowVoltage (fst (overvoltage_check c s)) = avgLowVoltage s"
  by (simp_all add: overvoltage_check_def)

lemma fault_cases: "x = Inl ZeroDivisor \<or> (\<exists>y. x = Inr y)"
proof (cases x)
  case (Inl e)
  then show ?thesis by (cases e) simp
qed simp

text \<open>
  The regulation step divides once. It has no result exactly when that divisor is zero,
  and otherwise it ends in \<open>constrain\<close>, whatever the conversion to \<open>uint16_t\<close> gave.
\<close>

lemma percent_error_fault:
  "percent_error fp guarded e vl = Inl ZeroDivisor
     \<longleftrightarrow> (if guarded then fadd fp (dbl fp vl) (dbl fp 1) = 0 else vl = 0)"
  by (simp add: percent_error_def fquot_def fdiv_def)

lemma pi_regulate_fault:
  "pi_regulate fp c guarded hi vl s = Inl ZeroDivisor
     \<longleftrightarrow> (if guarded then fadd fp (dbl fp vl) (dbl fp 1) = 0 else vl = 0)"
proof -
  have "pi_regulate fp c guarded hi vl s = Inl ZeroDivisor
     \<longleftrightarrow> percent_error fp guarded (wrap_s32 (vl - desiredLowVoltage s)) vl = Inl ZeroDivisor"
    by (auto simp: pi_regulate_def pi_terms_def Let_def split: sum.splits prod.splits)
  then show ?thesis by (simp only: percent_error_fault)
qed

lemma pi_regulate_shape:
  assumes "pi_regulate fp c guarded hi vl s = Inr s1"
  shows "\<exists>d ic. s1 = s\<lparr> actualLowVoltage := vl, integralControl := ic, dutyCycle := constrain d 10 hi \<rparr>"
  using assms
  by (auto simp: pi_regulate_def Let_def split: sum.splits prod.splits)



lemma mppt_close_writes:
  assumes "mppt_close fp c s = Inr (s1, ev)"
  shows "duty_writes ev = [dutyCycle s1] \<and> 10 \<le> dutyCycle s1 \<and> dutyCycle s1 \<le> 1023"
  using assms constrain_bounds [of 10 1023]
  by (auto simp: mppt_close_def Let_def duty_writes_append
      split: sum.splits prod.splits dest: overvoltage_check_writes)






lemma ic_decision_fault:
  assumes "0 < VOLTAGE_ERROR_RANGE c"
  shows "ic_decision fp c dv di i v = Inl ZeroDivisor
     \<longleftrightarrow> VOLTAGE_ERROR_RANGE c \<le> \<bar>dv\<bar> \<and> v = 0"
  using assms by (auto simp: ic_decision_def ic_branch2_def fdiv_def Let_def)




lemma pid_close_fault:
  assumes "0 < VOLTAGE_ERROR_RANGE c"
  shows "pid_close fp c s = Inl ZeroDivisor
     \<longleftrightarrow> VOLTAGE_ERROR_RANGE c
           \<le> \<bar>wrap_s32 (c_div (avgLowVoltageSum s) (NUM_AVERAGES c + 1) - avgPrevLowVoltage s)\<bar>
         \<and> c_div (avgLowVoltageSum s) (NUM_AVERAGES c + 1) = 0"
proof -
  define s2 where "s2 = (averages c s)\<lparr> dV := wrap_s32 (avgLowVoltage (averages c s) - avgPrevLowVoltage (averages c s)),
                   dI := wrap_s32 (avgLowCurrent (averages c s) - avgPrevLowCurrent (averages c s)) \<rparr>"
  have "pid_close fp c s = Inl ZeroDivisor
     \<longleftrightarrow> ic_decision fp c (dV s2) (dI s2) (avgLowCurrent s2) (avgLowVoltage s2) = Inl ZeroDivisor"
    using overvoltage_check_fields [of c s2]
    by (auto simp: pid_close_def Let_def s2_def split: sum.splits prod.splits)
  also have "\<dots> \<longleftrightarrow> VOLTAGE_ERROR_RANGE c \<le> \<bar>dV s2\<bar> \<and> avgLowVoltage s2 = 0"
    using ic_decision_fault [OF assms] by simp
  finally show ?thesis by (simp add: s2_def averages_def)
qed






section \<open>The safety interlock\<close>

lemma safety_branch_result:
  assumes "safety_branch r s = Inr (s1, ev)"
  shows "VOLTAGE_SAFETY s1 = VOLTAGE_SAFETY s \<and>
         map Inr (duty_writes ev) = [protective_duty (getCalibratedVH r)]"
  using assms by (auto simp: safety_branch_def split: sum.splits)

lemma safety_branch_total:
  "getCalibratedVH r \<noteq> 0 \<Longrightarrow> \<exists>s1 ev. safety_branch r s = Inr (s1, ev)"
  by (simp add: safety_branch_def protective_duty_def int_div_def)

lemma run_latched:
  assumes step: "\<And>r s. VOLTAGE_SAFETY s \<Longrightarrow> tick r s = safety_branch r s"
  shows "VOLTAGE_SAFETY s \<Longrightarrow> run tick rs s = Inr (s1, ev) \<Longrightarrow>
         VOLTAGE_SAFETY s1 \<and>
         map Inr (duty_writes ev) = map (\<lambda>r. protective_duty (getCalibratedVH r)) rs"
proof (induction rs arbitrary: s ev)
  case Nil
  then show ?case by simp
next
  case (Cons r rs)
  from Cons.prems obtain sa ea eb
    where a: "safety_branch r s = Inr (sa, ea)"
      and b: "run tick rs sa = Inr (s1, eb)"
      and res: "ev = ea @ eb"
    by (auto simp: step split: sum.splits prod.splits)
  from safety_branch_result [OF a] Cons.prems(1)
  have sa: "VOLTAGE_SAFETY sa" and wa: "map Inr (duty_writes ea) = [protective_duty (getCalibratedVH r)]"
    by simp_all
  from Cons.IH [OF sa b] res wa show ?case
    by (simp add: duty_writes_append)
qed

lemma run_latched_total:
  assumes step: "\<And>r s. VOLTAGE_SAFETY s \<Longrightarrow> tick r s = safety_branch r s"
  shows "VOLTAGE_SAFETY s \<Longrightarrow> \<forall>r \<in> set rs. getCalibratedVH r \<noteq> 0 \<Longrightarrow>
         \<exists>s1 ev. run tick rs s = Inr (s1, ev)"
proof (induction rs arbitrary: s)
  case Nil
  then show ?case by simp
next
  case (Cons r rs)
  from Cons.prems have "getCalibratedVH r \<noteq> 0" by simp
  from safety_branch_total [OF this, of s] obtain sa ea
    where a: "safety_branch r s = Inr (sa, ea)" by blast
  from safety_branch_result [OF a] Cons.prems(1) have sa: "VOLTAGE_SAFETY sa" by simp
  from Cons.IH [OF sa] Cons.prems(2) obtain sb eb where "run tick rs sa = Inr (sb, eb)"
    by auto
  with a Cons.prems(1) show ?case by (simp add: step)
qed

lemma close_sets_flag:
  assumes "LOW_SIDE_MAX_VOLTAGE c < c_div (avgLowVoltageSum s) (NUM_AVERAGES c + 1)"
  shows "mppt_close fp c s = Inr (s1, ev) \<Longrightarrow> VOLTAGE_SAFETY s1"
    and "pid_close fp c s = Inr (s1, ev) \<Longrightarrow> VOLTAGE_SAFETY s1"
  using assms
  by (auto simp: mppt_close_def pid_close_def averages_def overvoltage_check_def
      reset_window_def Let_def split: sum.splits)

text \<open>
  Claim C2, as amended. In a sketch compiled with \<open>SAFETY_ENABLE\<close>, a window whose averaged
  low-side voltage exceeds the maximum sets the flag, and from a state with the flag set
  every later tick takes the safety branch: the flag stays set (these sketches have no
  reset), and the duty cycles handed to the actuator are exactly the protective values
  \<open>(12000 / getCalibratedVH()) * 1024\<close> of the ticks' readings, one per tick. The run has
  a result whenever no high-side reading is 0.
\<close>

theorem safety_latch:
  assumes "SAFETY_ENABLE c" and "VOLTAGE_SAFETY s"
  shows "(\<forall>s1 ev. run (controlUpdate_mppt fp c) rs s = Inr (s1, ev) \<longrightarrow>
            VOLTAGE_SAFETY s1 \<and>
            map Inr (duty_writes ev) = map (\<lambda>r. protective_duty (getCalibratedVH r)) rs) \<and>
         (\<forall>s1 ev. run (controlUpdate_pid_mppt fp c) rs s = Inr (s1, ev) \<longrightarrow>
            VOLTAGE_SAFETY s1 \<and>
            map Inr (duty_writes ev) = map (\<lambda>r. protective_duty (getCalibratedVH r)) rs) \<and>
         ((\<forall>r \<in> set rs. getCalibratedVH r \<noteq> 0) \<longrightarrow>
            (\<exists>s1 ev. run (controlUpdate_mppt fp c) rs s = Inr (s1, ev)) \<and>
            (\<exists>s1 ev. run (controlUpdate_pid_mppt fp c) rs s = Inr (s1, ev))) \<and>
         (\<forall>s0 s1 ev. LOW_SIDE_MAX_VOLTAGE c < c_div (avgLowVoltageSum s0) (NUM_AVERAGES c + 1) \<and>
            (mppt_close fp c s0 = Inr (s1, ev) \<or> pid_close fp c s0 = Inr (s1, ev))
            \<longrightarrow> VOLTAGE_SAFETY s1)"
proof -
  have m: "\<And>r s. VOLTAGE_SAFETY s \<Longrightarrow> controlUpdate_mppt fp c r s = safety_branch r s"
    using assms(1) by (simp add: controlUpdate_mppt_def)
  have p: "\<And>r s. VOLTAGE_SAFETY s \<Longrightarrow> controlUpdate_pid_mppt fp c r s = safety_branch r s"
    using assms(1) by (simp add: controlUpdate_pid_mppt_def)
  show ?thesis
    using run_latched [of "controlUpdate_mppt fp c", OF m assms(2)]
      run_latched [of "controlUpdate_pid_mppt fp c", OF p assms(2)]
      run_latched_total [of "controlUpdate_mppt fp c", OF m assms(2)]
      run_latched_total [of "controlUpdate_pid_mppt fp c", OF p assms(2)]
      close_sets_flag
    by blast
qed

text \<open>
  A sketch with the safety branch compiled in, tripped by a window of 1000 samples of
  16 V, then run for two ticks with 13 V and 9 V on the high side.
\<close>

theorem safety_latch_witness:
  "SAFETY_ENABLE (mppt_config\<lparr> SAFETY_ENABLE := True \<rparr>) \<and>
   (\<forall>oor. map_sum id (VOLTAGE_SAFETY \<circ> fst)
     (controlUpdate_mppt (binary32 oor) (mppt_config\<lparr> SAFETY_ENABLE := True \<rparr>)
        (quiet\<lparr> getCalibratedVL := 16000 \<rparr>)
        (setup_mppt\<lparr> avgCount := 999, avgLowVoltageSum := 15984000 \<rparr>)) = Inr True) \<and>
   VOLTAGE_SAFETY (setup_mppt\<lparr> VOLTAGE_SAFETY := True \<rparr>) \<and>
   (\<forall>fp. map_sum id (duty_writes \<circ> snd)
     (run (controlUpdate_mppt fp (mppt_config\<lparr> SAFETY_ENABLE := True \<rparr>))
        [quiet\<lparr> getCalibratedVH := 13000 \<rparr>, quiet\<lparr> getCalibratedVH := 9000 \<rparr>]
        (setup_mppt\<lparr> VOLTAGE_SAFETY := True \<rparr>)) = Inr [0, 1024]) \<and>
   (\<forall>fp. map Inr (duty_writes (snd (projr
     (run (controlUpdate_mppt fp (mppt_config\<lparr> SAFETY_ENABLE := True \<rparr>))
        [quiet\<lparr> getCalibratedVH := 13000 \<rparr>, quiet\<lparr> getCalibratedVH := 9000 \<rparr>]
        (setup_mppt\<lparr> VOLTAGE_SAFETY := True \<rparr>)))))
     = [protective_duty 13000, protective_duty 9000])"
proof -
  let ?c = "mppt_config\<lparr> SAFETY_ENABLE := True \<rparr>"
  let ?s = "setup_mppt\<lparr> VOLTAGE_SAFETY := True \<rparr>"
  let ?rs = "[quiet\<lparr> getCalibratedVH := 13000 \<rparr>, quiet\<lparr> getCalibratedVH := 9000 \<rparr>]"
  have c: "SAFETY_ENABLE ?c" by simp
  have s: "VOLTAGE_SAFETY ?s" by simp
  have trip: "map_sum id (VOLTAGE_SAFETY \<circ> fst)
     (controlUpdate_mppt (binary32 oor) ?c (quiet\<lparr> getCalibratedVL := 16000 \<rparr>)
        (setup_mppt\<lparr> avgCount := 999, avgLowVoltageSum := 15984000 \<rparr>)) = Inr True" for oor
    by (simp add: controlUpdate_mppt_def mppt_accumulate_def mppt_close_def averages_def
        overvoltage_check_def reset_window_def ic_decision_def ic_branch1_def ic_branch2_def
        fp_eval constrain_def mppt_config_def quiet_def setup_mppt_def globals_init_def
        wrap_s16_def wrap_s32_def wrap_u16_def c_div_def Let_def)
  have w: "map_sum id (duty_writes \<circ> snd) (run (controlUpdate_mppt fp ?c) ?rs ?s) = Inr [0, 1024]" for fp
    by (simp add: controlUpdate_mppt_def safety_branch_def protective_duty_high
        protective_duty_mid quiet_def setup_mppt_def globals_init_def)
  have "map Inr (duty_writes (snd (projr (run (controlUpdate_mppt fp ?c) ?rs ?s))))
      = [protective_duty 13000, protective_duty 9000]" for fp
  proof -
    let ?run = "run (controlUpdate_mppt fp ?c) ?rs ?s"
    have r: "?run = Inr (fst (projr ?run), snd (projr ?run))"
      using w [of fp] by (cases ?run) simp_all
    have "map Inr (duty_writes (snd (projr ?run))) = map (\<lambda>r. protective_duty (getCalibratedVH r)) ?rs"
      using safety_latch [OF c s, of fp ?rs] r by blast
    then show ?thesis by (simp add: quiet_def)
  qed
  then show ?thesis using c s trip w by simp
qed

text \<open>
  The claim as stated fails in the sketches as they are compiled (\<open>SAFETY_ENABLE 0\<close>): the
  flag is set but never consulted. With the flag set and 13 V on the high side (protective
  value 0), the closing tick of a window still hands the actuator the duty cycle of the
  incremental-conductance decision, 532; the PI sketch hands over its regulated 682.
\<close>

theorem safety_disabled_counterexample:
  "VOLTAGE_SAFETY (setup_mppt\<lparr> VOLTAGE_SAFETY := True, avgCount := 999,
       avgLowVoltageSum := 15984000, avgLowCurrentSum := 9990,
       avgPrevLowVoltage := 15984, avgPrevLowCurrent := - 20 \<rparr>) \<and>
   (\<forall>fp. map_sum id (duty_writes \<circ> snd)
     (controlUpdate_mppt fp mppt_config
        (quiet\<lparr> getCalibratedVL := 16000, getIL := 10, getCalibratedVH := 13000 \<rparr>)
        (setup_mppt\<lparr> VOLTAGE_SAFETY := True, avgCount := 999,
           avgLowVoltageSum := 15984000, avgLowCurrentSum := 9990,
           avgPrevLowVoltage := 15984, avgPrevLowCurrent := - 20 \<rparr>)) = Inr [532]) \<and>
   (\<forall>oor. map_sum id (duty_writes \<circ> snd)
     (controlUpdate_pid_mppt (binary32 oor) pid_mppt_config
        (quiet\<lparr> getCalibratedVL := 8000, getCalibratedVL2 := 8000, getCalibratedVH := 13000 \<rparr>)
        (globals_init\<lparr> VOLTAGE_SAFETY := True, desiredLowVoltage := 8000, dutyCycle := 682 \<rparr>))
     = Inr [682]) \<and>
   protective_duty 13000 = Inr 0"
  by (simp add: controlUpdate_mppt_def mppt_accumulate_def mppt_close_def averages_def
      overvoltage_check_def reset_window_def ic_decision_def ic_branch1_def constrain_def
      controlUpdate_pid_mppt_def pid_accumulate_def pi_regulate_def pi_terms_def
      percent_error_def fp_eval pid_mppt_config_def
      mppt_config_def quiet_def setup_mppt_def globals_init_def wrap_s16_def wrap_s32_def
      wrap_u16_def c_div_def protective_duty_high Let_def)

section \<open>The averaging window\<close>

lemma wrap_mod_add: "((a + k) mod m - k + b + k) mod m = (a + b + k) mod (m::int)"
proof -
  have "((a + k) mod m - k + b + k) mod m = ((a + k) mod m + b) mod m"
    by (simp add: algebra_simps)
  also have "\<dots> = (a + k + b) mod m"
    by (rule mod_add_left_eq)
  finally show ?thesis by (simp add: algebra_simps)
qed

lemma wrap_s16_add: "wrap_s16 (wrap_s16 a + b) = wrap_s16 (a + b)"
  unfolding wrap_s16_def by (simp only: wrap_mod_add)

lemma wrap_s32_add: "wrap_s32 (wrap_s32 a + b) = wrap_s32 (a + b)"
  unfolding wrap_s32_def by (simp only: wrap_mod_add)

lemma wrap_s16_id: "- 32768 \<le> x \<Longrightarrow> x < 32768 \<Longrightarrow> wrap_s16 x = x"
  by (simp add: wrap_s16_def)

lemma wrap_zero: "wrap_s16 0 = 0" "wrap_s32 0 = 0"
  by (simp_all add: wrap_s16_def wrap_s32_def)

lemma run_append:
  "run tick (xs @ ys) s =
     (case run tick xs s of
        Inl e \<Rightarrow> Inl e
      | Inr (s1, e1) \<Rightarrow>
         (case run tick ys s1 of
            Inl e \<Rightarrow> Inl e
          | Inr (s2, e2) \<Rightarrow> Inr (s2, e1 @ e2)))"
  by (induction xs arbitrary: s) (auto split: sum.splits prod.splits)

lemma run_single: "run tick [r] s = tick r s"
  by (auto split: sum.splits prod.splits)

lemma total_simps: "total f [] = 0" "total f (r # rs) = f r + total f rs"
  "total f (rs @ qs) = total f rs + total f qs"
  by (simp_all add: total_def)

lemma ic_decision_total:
  "0 < VOLTAGE_ERROR_RANGE c \<Longrightarrow> v \<noteq> 0 \<Longrightarrow> \<exists>d. ic_decision fp c dv di i v = Inr d"
  by (auto simp: ic_decision_def ic_branch2_def fdiv_def Let_def)

lemma mppt_accumulating:
  assumes "\<not> (SAFETY_ENABLE c \<and> VOLTAGE_SAFETY s)" and "0 \<le> avgCount s"
    and "avgCount s + int (length rs) < NUM_AVERAGES c" and "NUM_AVERAGES c \<le> 32767"
    and "avgLowCurrentSum s = wrap_s16 il" and "avgHighCurrentSum s = wrap_s16 ih"
    and "avgLowVoltageSum s = wrap_s32 vl" and "avgHighVoltageSum s = wrap_s32 vh"
  shows "\<exists>s'. run (controlUpdate_mppt fp c) rs s = Inr (s', []) \<and>
           avgCount s' = avgCount s + int (length rs) \<and>
           VOLTAGE_SAFETY s' = VOLTAGE_SAFETY s \<and>
           avgLowCurrentSum s' = wrap_s16 (il + total getIL rs) \<and>
           avgHighCurrentSum s' = wrap_s16 (ih + total getIH rs) \<and>
           avgLowVoltageSum s' = wrap_s32 (vl + total getCalibratedVL rs) \<and>
           avgHighVoltageSum s' = wrap_s32 (vh + total getCalibratedVH rs)"
  using assms
proof (induction rs arbitrary: s il ih vl vh)
  case Nil
  then show ?case by (simp add: total_simps)
next
  case (Cons r rs)
  let ?s1 = "mppt_accumulate r s"
  have cnt: "avgCount ?s1 = avgCount s + 1"
    using Cons.prems(2,3,4) by (simp add: mppt_accumulate_def wrap_s16_id)
  have tick: "controlUpdate_mppt fp c r s = Inr (?s1, [])"
    using Cons.prems(1,3) cnt by (auto simp: controlUpdate_mppt_def Let_def)
  have "\<exists>s'. run (controlUpdate_mppt fp c) rs ?s1 = Inr (s', []) \<and>
           avgCount s' = avgCount ?s1 + int (length rs) \<and>
           VOLTAGE_SAFETY s' = VOLTAGE_SAFETY ?s1 \<and>
           avgLowCurrentSum s' = wrap_s16 (il + getIL r + total getIL rs) \<and>
           avgHighCurrentSum s' = wrap_s16 (ih + getIH r + total getIH rs) \<and>
           avgLowVoltageSum s' = wrap_s32 (vl + getCalibratedVL r + total getCalibratedVL rs) \<and>
           avgHighVoltageSum s' = wrap_s32 (vh + getCalibratedVH r + total getCalibratedVH rs)"
  proof (rule Cons.IH)
    show "\<not> (SAFETY_ENABLE c \<and> VOLTAGE_SAFETY ?s1)"
      using Cons.prems(1) by (simp add: mppt_accumulate_def)
    show "0 \<le> avgCount ?s1" using cnt Cons.prems(2) by simp
    show "avgCount ?s1 + int (length rs) < NUM_AVERAGES c" using cnt Cons.prems(3) by simp
    show "NUM_AVERAGES c \<le> 32767" by (rule Cons.prems(4))
    show "avgLowCurrentSum ?s1 = wrap_s16 (il + getIL r)"
      using Cons.prems(5) by (simp add: mppt_accumulate_def wrap_s16_add)
    show "avgHighCurrentSum ?s1 = wrap_s16 (ih + getIH r)"
      using Cons.prems(6) by (simp add: mppt_accumulate_def wrap_s16_add)
    show "avgLowVoltageSum ?s1 = wrap_s32 (vl + getCalibratedVL r)"
      using Cons.prems(7) by (simp add: mppt_accumulate_def wrap_s32_add)
    show "avgHighVoltageSum ?s1 = wrap_s32 (vh + getCalibratedVH r)"
      using Cons.prems(8) by (simp add: mppt_accumulate_def wrap_s32_add)
  qed
  then obtain s' where s': "run (controlUpdate_mppt fp c) rs ?s1 = Inr (s', [])"
      "avgCount s' = avgCount ?s1 + int (length rs)"
      "VOLTAGE_SAFETY s' = VOLTAGE_SAFETY ?s1"
      "avgLowCurrentSum s' = wrap_s16 (il + getIL r + total getIL rs)"
      "avgHighCurrentSum s' = wrap_s16 (ih + getIH r + total getIH rs)"
      "avgLowVoltageSum s' = wrap_s32 (vl + getCalibratedVL r + total getCalibratedVL rs)"
      "avgHighVoltageSum s' = wrap_s32 (vh + getCalibratedVH r + total getCalibratedVH rs)"
    by blast
  have "run (controlUpdate_mppt fp c) (r # rs) s = Inr (s', [])"
    using tick s'(1) by simp
  moreover have "VOLTAGE_SAFETY s' = VOLTAGE_SAFETY s"
    using s'(3) by (simp add: mppt_accumulate_def)
  ultimately show ?case
    using s'(2,4,5,6,7) cnt by (simp add: total_simps add.assoc)
qed

lemma mppt_close_result:
  assumes "mppt_close fp c s = Inr (s2, ev)"
  shows "avgLowCurrent s2 = c_div (avgLowCurrentSum s) (NUM_AVERAGES c + 1) \<and>
         avgLowVoltage s2 = c_div (avgLowVoltageSum s) (NUM_AVERAGES c + 1) \<and>
         avgHighCurrent s2 = c_div (avgHighCurrentSum s) (NUM_AVERAGES c + 1) \<and>
         avgHighVoltage s2 = c_div (avgHighVoltageSum s) (NUM_AVERAGES c + 1) \<and>
         avgLowCurrentSum s2 = 0 \<and> avgLowVoltageSum s2 = 0 \<and>
         avgHighCurrentSum s2 = 0 \<and> avgHighVoltageSum s2 = 0 \<and> avgCount s2 = 0"
  using assms
  by (auto simp: mppt_close_def averages_def overvoltage_check_def reset_window_def Let_def
      split: sum.splits if_splits)

lemma pid_close_result:
  assumes "pid_close fp c s = Inr (s2, ev)"
  shows "avgLowCurrent s2 = c_div (avgLowCurrentSum s) (NUM_AVERAGES c + 1) \<and>
         avgLowVoltage s2 = c_div (avgLowVoltageSum s) (NUM_AVERAGES c + 1) \<and>
         avgHighCurrent s2 = c_div (avgHighCurrentSum s) (NUM_AVERAGES c + 1) \<and>
         avgHighVoltage s2 = c_div (avgHighVoltageSum s) (NUM_AVERAGES c + 1) \<and>
         avgLowCurrentSum s2 = 0 \<and> avgLowVoltageSum s2 = 0 \<and>
         avgHighCurrentSum s2 = 0 \<and> avgHighVoltageSum s2 = 0 \<and> avgCount s2 = 0"
  using assms
  by (auto simp: pid_close_def averages_def overvoltage_check_def reset_window_def Let_def
      split: sum.splits if_splits)

lemma mppt_close_total:
  assumes "0 < VOLTAGE_ERROR_RANGE c"
    and "c_div (avgLowVoltageSum s) (NUM_AVERAGES c + 1) \<noteq> 0"
  shows "\<exists>s2 ev. mppt_close fp c s = Inr (s2, ev)"
proof -
  obtain s3 msgs where o: "overvoltage_check c
      ((averages c s)\<lparr> dV := wrap_s32 (avgLowVoltage (averages c s) - avgPrevLowVoltage (averages c s)),
                        dI := wrap_s16 (avgLowCurrent (averages c s) - avgPrevLowCurrent (averages c s)) \<rparr>)
      = (s3, msgs)"
    by (cases "overvoltage_check c
      ((averages c s)\<lparr> dV := wrap_s32 (avgLowVoltage (averages c s) - avgPrevLowVoltage (averages c s)),
                        dI := wrap_s16 (avgLowCurrent (averages c s) - avgPrevLowCurrent (averages c s)) \<rparr>)")
  have v: "avgLowVoltage s3 \<noteq> 0"
    using o assms(2) by (auto simp: overvoltage_check_def averages_def split: if_splits)
  from ic_decision_total [OF assms(1) v] obtain d
    where "ic_decision fp c (dV s3) (dI s3) (avgLowCurrent s3) (avgLowVoltage s3) = Inr d"
    by blast
  then show ?thesis using o by (simp add: mppt_close_def Let_def)
qed

text \<open>
  The sketch with PI regulation accumulates on the ticks that do not close a window, and
  closes on the next one.
\<close>

lemma pid_tick_accumulates:
  assumes "\<not> (SAFETY_ENABLE c \<and> VOLTAGE_SAFETY s)" and "avgCount s \<noteq> NUM_AVERAGES c"
    and "getCalibratedVL r \<noteq> 0"
  shows "\<exists>d ic. controlUpdate_pid_mppt fp c r s
      = Inr (pid_accumulate r (s\<lparr> actualLowVoltage := getCalibratedVL r, integralControl := ic,
               dutyCycle := constrain d 10 1023 \<rparr>),
             [SetDutyCycle (constrain d 10 1023)])"
proof -
  have "pi_regulate fp c False 1023 (getCalibratedVL r) s \<noteq> Inl ZeroDivisor"
    using assms(3) by (simp add: pi_regulate_fault)
  then obtain sp where sp: "pi_regulate fp c False 1023 (getCalibratedVL r) s = Inr sp"
    using fault_cases [of "pi_regulate fp c False 1023 (getCalibratedVL r) s"] by auto
  from pi_regulate_shape [OF sp] obtain d ic
    where shape: "sp = s\<lparr> actualLowVoltage := getCalibratedVL r, integralControl := ic,
        dutyCycle := constrain d 10 1023 \<rparr>"
    by blast
  have "controlUpdate_pid_mppt fp c r s = Inr (pid_accumulate r sp, [SetDutyCycle (dutyCycle sp)])"
    using assms(1,2) sp shape by (auto simp: controlUpdate_pid_mppt_def)
  then show ?thesis unfolding shape by auto
qed

lemma pid_accumulating:
  assumes "\<not> (SAFETY_ENABLE c \<and> VOLTAGE_SAFETY s)" and "0 \<le> avgCount s"
    and "avgCount s + int (length rs) \<le> NUM_AVERAGES c" and "NUM_AVERAGES c \<le> 32767"
    and "avgLowCurrentSum s = wrap_s32 il" and "avgHighCurrentSum s = wrap_s32 ih"
    and "avgLowVoltageSum s = wrap_s32 vl" and "avgHighVoltageSum s = wrap_s32 vh"
    and "\<forall>r \<in> set rs. getCalibratedVL r \<noteq> 0"
  shows "\<exists>s' ev. run (controlUpdate_pid_mppt fp c) rs s = Inr (s', ev) \<and>
         avgCount s' = avgCount s + int (length rs) \<and>
         VOLTAGE_SAFETY s' = VOLTAGE_SAFETY s \<and>
         avgPrevLowCurrent s' = avgPrevLowCurrent s \<and>
         avgPrevLowVoltage s' = avgPrevLowVoltage s \<and>
         avgLowCurrentSum s' = wrap_s32 (il + total getIL rs) \<and>
         avgHighCurrentSum s' = wrap_s32 (ih + total getIH rs) \<and>
         avgLowVoltageSum s' = wrap_s32 (vl + total getCalibratedVL2 rs) \<and>
         avgHighVoltageSum s' = wrap_s32 (vh + total getCalibratedVH rs)"
  using assms
proof (induction rs arbitrary: s il ih vl vh)
  case Nil
  then show ?case by (simp add: total_simps)
next
  case (Cons r rs)
  have ne: "avgCount s \<noteq> NUM_AVERAGES c" using Cons.prems(3) by simp
  have vl0: "getCalibratedVL r \<noteq> 0" using Cons.prems(9) by simp
  from pid_tick_accumulates [OF Cons.prems(1) ne vl0, of fp] obtain d ic
    where tick: "controlUpdate_pid_mppt fp c r s
      = Inr (pid_accumulate r (s\<lparr> actualLowVoltage := getCalibratedVL r, integralControl := ic,
               dutyCycle := constrain d 10 1023 \<rparr>),
             [SetDutyCycle (constrain d 10 1023)])"
    by blast
  define s1 where "s1 = pid_accumulate r (s\<lparr> actualLowVoltage := getCalibratedVL r,
    integralControl := ic, dutyCycle := constrain d 10 1023 \<rparr>)"
  have cnt: "avgCount s1 = avgCount s + 1"
    using Cons.prems(2,3,4) by (simp add: s1_def pid_accumulate_def wrap_s16_id)
  have "\<exists>s' ev. run (controlUpdate_pid_mppt fp c) rs s1 = Inr (s', ev) \<and>
         avgCount s' = avgCount s1 + int (length rs) \<and>
         VOLTAGE_SAFETY s' = VOLTAGE_SAFETY s1 \<and>
         avgPrevLowCurrent s' = avgPrevLowCurrent s1 \<and>
         avgPrevLowVoltage s' = avgPrevLowVoltage s1 \<and>
         avgLowCurrentSum s' = wrap_s32 (il + getIL r + total getIL rs) \<and>
         avgHighCurrentSum s' = wrap_s32 (ih + getIH r + total getIH rs) \<and>
         avgLowVoltageSum s' = wrap_s32 (vl + getCalibratedVL2 r + total getCalibratedVL2 rs) \<and>
         avgHighVoltageSum s' = wrap_s32 (vh + getCalibratedVH r + total getCalibratedVH rs)"
  proof (rule Cons.IH)
    show "\<not> (SAFETY_ENABLE c \<and> VOLTAGE_SAFETY s1)"
      using Cons.prems(1) by (simp add: s1_def pid_accumulate_def)
    show "0 \<le> avgCount s1" using cnt Cons.prems(2) by simp
    show "avgCount s1 + int (length rs) \<le> NUM_AVERAGES c" using cnt Cons.prems(3) by simp
    show "NUM_AVERAGES c \<le> 32767" by (rule Cons.prems(4))
    show "avgLowCurrentSum s1 = wrap_s32 (il + getIL r)"
      using Cons.prems(5) by (simp add: s1_def pid_accumulate_def wrap_s32_add)
    show "avgHighCurrentSum s1 = wrap_s32 (ih + getIH r)"
      using Cons.prems(6) by (simp add: s1_def pid_accumulate_def wrap_s32_add)
    show "avgLowVoltageSum s1 = wrap_s32 (vl + getCalibratedVL2 r)"
      using Cons.prems(7) by (simp add: s1_def pid_accumulate_def wrap_s32_add)
    show "avgHighVoltageSum s1 = wrap_s32 (vh + getCalibratedVH r)"
      using Cons.prems(8) by (simp add: s1_def pid_accumulate_def wrap_s32_add)
    show "\<forall>r \<in> set rs. getCalibratedVL r \<noteq> 0" using Cons.prems(9) by simp
  qed
  then obtain s' ev where s': "run (controlUpdate_pid_mppt fp c) rs s1 = Inr (s', ev)"
      "avgCount s' = avgCount s1 + int (length rs)"
      "VOLTAGE_SAFETY s' = VOLTAGE_SAFETY s1"
      "avgPrevLowCurrent s' = avgPrevLowCurrent s1"
      "avgPrevLowVoltage s' = avgPrevLowVoltage s1"
      "avgLowCurrentSum s' = wrap_s32 (il + getIL r + total getIL rs)"
      "avgHighCurrentSum s' = wrap_s32 (ih + getIH r + total getIH rs)"
      "avgLowVoltageSum s' = wrap_s32 (vl + getCalibratedVL2 r + total getCalibratedVL2 rs)"
      "avgHighVoltageSum s' = wrap_s32 (vh + getCalibratedVH r + total getCalibratedVH rs)"
    by blast
  have "run (controlUpdate_pid_mppt fp c) (r # rs) s
      = Inr (s', SetDutyCycle (constrain d 10 1023) # ev)"
    using tick s'(1) by (simp add: s1_def)
  moreover have "VOLTAGE_SAFETY s1 = VOLTAGE_SAFETY s" "avgPrevLowCurrent s1 = avgPrevLowCurrent s"
    "avgPrevLowVoltage s1 = avgPrevLowVoltage s"
    by (simp_all add: s1_def pid_accumulate_def)
  ultimately show ?case
    using s'(2-9) cnt by (simp add: total_simps add.assoc)
qed

lemma pid_tick_closes:
  assumes "\<not> (SAFETY_ENABLE c \<and> VOLTAGE_SAFETY s)" and "avgCount s = NUM_AVERAGES c"
    and "0 < VOLTAGE_ERROR_RANGE c" and "getCalibratedVL r \<noteq> 0"
    and "c_div (avgLowVoltageSum s) (NUM_AVERAGES c + 1) \<noteq> 0"
  shows "\<exists>s2 ev. controlUpdate_pid_mppt fp c r s = Inr (s2, ev) \<and>
         avgLowCurrent s2 = c_div (avgLowCurrentSum s) (NUM_AVERAGES c + 1) \<and>
         avgLowVoltage s2 = c_div (avgLowVoltageSum s) (NUM_AVERAGES c + 1) \<and>
         avgHighCurrent s2 = c_div (avgHighCurrentSum s) (NUM_AVERAGES c + 1) \<and>
         avgHighVoltage s2 = c_div (avgHighVoltageSum s) (NUM_AVERAGES c + 1) \<and>
         avgLowCurrentSum s2 = 0 \<and> avgLowVoltageSum s2 = 0 \<and>
         avgHighCurrentSum s2 = 0 \<and> avgHighVoltageSum s2 = 0 \<and> avgCount s2 = 0"
proof -
  have "pi_regulate fp c False 1023 (getCalibratedVL r) s \<noteq> Inl ZeroDivisor"
    using assms(4) by (simp add: pi_regulate_fault)
  then obtain sp where sp: "pi_regulate fp c False 1023 (getCalibratedVL r) s = Inr sp"
    using fault_cases [of "pi_regulate fp c False 1023 (getCalibratedVL r) s"] by auto
  from pi_regulate_shape [OF sp] obtain d ic
    where shape: "sp = s\<lparr> actualLowVoltage := getCalibratedVL r, integralControl := ic,
        dutyCycle := constrain d 10 1023 \<rparr>"
    by blast
  have "pid_close fp c sp \<noteq> Inl ZeroDivisor"
    using pid_close_fault [OF assms(3), of fp sp] assms(5) by (simp add: shape)
  then obtain s2 msgs where cl: "pid_close fp c sp = Inr (s2, msgs)"
    using fault_cases [of "pid_close fp c sp"] by auto
  have "controlUpdate_pid_mppt fp c r s = Inr (s2, SetDutyCycle (dutyCycle sp) # msgs)"
    using assms(1,2) sp cl by (auto simp: controlUpdate_pid_mppt_def shape)
  then show ?thesis using pid_close_result [OF cl] by (simp add: shape)
qed

lemma mppt_window:
  assumes n: "0 < NUM_AVERAGES c" "NUM_AVERAGES c < 32767"
    and idle: "\<not> (SAFETY_ENABLE c \<and> VOLTAGE_SAFETY s)"
    and start: "avgCount s = 0" "avgLowCurrentSum s = 0" "avgHighCurrentSum s = 0"
      "avgLowVoltageSum s = 0" "avgHighVoltageSum s = 0"
    and len: "int (length rs) + 1 = NUM_AVERAGES c"
  shows "\<exists>s'. run (controlUpdate_mppt fp c) rs s = Inr (s', []) \<and>
           avgCount s' = NUM_AVERAGES c - 1 \<and>
           run (controlUpdate_mppt fp c) (rs @ [r]) s = mppt_close fp c (mppt_accumulate r s') \<and>
           avgLowCurrentSum (mppt_accumulate r s') = wrap_s16 (total getIL (rs @ [r])) \<and>
           avgHighCurrentSum (mppt_accumulate r s') = wrap_s16 (total getIH (rs @ [r])) \<and>
           avgLowVoltageSum (mppt_accumulate r s') = wrap_s32 (total getCalibratedVL (rs @ [r])) \<and>
           avgHighVoltageSum (mppt_accumulate r s') = wrap_s32 (total getCalibratedVH (rs @ [r]))"
proof -
  have "\<exists>s'. run (controlUpdate_mppt fp c) rs s = Inr (s', []) \<and>
           avgCount s' = avgCount s + int (length rs) \<and>
           VOLTAGE_SAFETY s' = VOLTAGE_SAFETY s \<and>
           avgLowCurrentSum s' = wrap_s16 (0 + total getIL rs) \<and>
           avgHighCurrentSum s' = wrap_s16 (0 + total getIH rs) \<and>
           avgLowVoltageSum s' = wrap_s32 (0 + total getCalibratedVL rs) \<and>
           avgHighVoltageSum s' = wrap_s32 (0 + total getCalibratedVH rs)"
    by (rule mppt_accumulating) (use n idle start len in \<open>simp_all add: wrap_zero\<close>)
  then obtain s' where run: "run (controlUpdate_mppt fp c) rs s = Inr (s', [])"
    and cnt: "avgCount s' = avgCount s + int (length rs)"
    and flag: "VOLTAGE_SAFETY s' = VOLTAGE_SAFETY s"
    and sums: "avgLowCurrentSum s' = wrap_s16 (0 + total getIL rs)"
      "avgHighCurrentSum s' = wrap_s16 (0 + total getIH rs)"
      "avgLowVoltageSum s' = wrap_s32 (0 + total getCalibratedVL rs)"
      "avgHighVoltageSum s' = wrap_s32 (0 + total getCalibratedVH rs)"
    by blast
  have cnt': "avgCount s' = NUM_AVERAGES c - 1" using cnt start(1) len by simp
  have acc: "avgCount (mppt_accumulate r s') = NUM_AVERAGES c"
    using cnt' n by (simp add: mppt_accumulate_def wrap_s16_id)
  have tick: "controlUpdate_mppt fp c r s' = mppt_close fp c (mppt_accumulate r s')"
    using idle flag acc by (auto simp: controlUpdate_mppt_def Let_def)
  have all: "run (controlUpdate_mppt fp c) (rs @ [r]) s = mppt_close fp c (mppt_accumulate r s')"
    using run tick by (auto simp: run_append run_single split: sum.splits prod.splits)
  show ?thesis
    using run cnt' all sums
    by (auto simp: mppt_accumulate_def wrap_s16_add wrap_s32_add total_simps)
qed

lemma total_replicate: "total f (replicate n r) = int n * f r"
  by (induction n) (simp_all add: total_simps algebra_simps)

text \<open>
  Claim C3. The averages are meant to be the quotients of the sums of the readings by
  \<open>N + 1\<close>, and the window to close once and reset. \<open>MPPT_wider_ranges_AVG_no_PID.cpp\<close>
  declares its two current sums as \<open>int\<close>, 16 bits on this board, where its sibling
  declares \<open>int32_t\<close>. From start-up, with 12000 mV and 100 mA read on each of the 1000
  ticks of a window, the window closes once and resets, and the averaged voltage is
  12000000 / 1001 = 11988; but the current sum 100000 has wrapped to -31072 and the
  averaged current is -31, where the quotient of the sum of the readings is 99. The
  sibling sketch gives 99 on the same readings.
\<close>

theorem averaging_current_sum_wraps:
  "(\<exists>s2 ev. run (controlUpdate_mppt fp mppt_config)
        (replicate 999 (quiet\<lparr> getCalibratedVL := 12000, getCalibratedVL2 := 12000, getIL := 100 \<rparr>)
           @ [quiet\<lparr> getCalibratedVL := 12000, getCalibratedVL2 := 12000, getIL := 100 \<rparr>])
        setup_mppt = Inr (s2, ev) \<and>
      avgLowVoltage s2 = 11988 \<and> avgLowCurrent s2 = - 31 \<and>
      avgLowVoltageSum s2 = 0 \<and> avgLowCurrentSum s2 = 0 \<and>
      avgHighVoltageSum s2 = 0 \<and> avgHighCurrentSum s2 = 0 \<and> avgCount s2 = 0 \<and>
      length (duty_writes ev) = 1) \<and>
   c_div (total getCalibratedVL
        (replicate 999 (quiet\<lparr> getCalibratedVL := 12000, getCalibratedVL2 := 12000, getIL := 100 \<rparr>)
           @ [quiet\<lparr> getCalibratedVL := 12000, getCalibratedVL2 := 12000, getIL := 100 \<rparr>]))
      (NUM_AVERAGES mppt_config + 1) = 11988 \<and>
   c_div (total getIL
        (replicate 999 (quiet\<lparr> getCalibratedVL := 12000, getCalibratedVL2 := 12000, getIL := 100 \<rparr>)
           @ [quiet\<lparr> getCalibratedVL := 12000, getCalibratedVL2 := 12000, getIL := 100 \<rparr>]))
      (NUM_AVERAGES mppt_config + 1) = 99 \<and>
   (\<exists>s' ev s2 ev2. run (controlUpdate_pid_mppt fp pid_mppt_config)
        (replicate 1000 (quiet\<lparr> getCalibratedVL := 12000, getCalibratedVL2 := 12000, getIL := 100 \<rparr>))
        (globals_init\<lparr> desiredLowVoltage := 8000, dutyCycle := 682 \<rparr>) = Inr (s', ev) \<and>
      controlUpdate_pid_mppt fp pid_mppt_config
        (quiet\<lparr> getCalibratedVL := 12000, getCalibratedVL2 := 12000, getIL := 100 \<rparr>) s'
        = Inr (s2, ev2) \<and>
      avgLowVoltage s2 = 11988 \<and> avgLowCurrent s2 = 99 \<and>
      avgLowVoltageSum s2 = 0 \<and> avgLowCurrentSum s2 = 0 \<and> avgCount s2 = 0)"
proof -
  define r0 where "r0 = quiet\<lparr> getCalibratedVL := 12000, getCalibratedVL2 := 12000, getIL := 100 \<rparr>"
  define rs where "rs = replicate 999 r0"
  define qs where "qs = replicate 1000 r0"
  define s0 where "s0 = globals_init\<lparr> desiredLowVoltage := 8000, dutyCycle := 682 \<rparr>"
  have len: "int (length rs) + 1 = NUM_AVERAGES mppt_config"
    by (simp add: rs_def mppt_config_def)
  have raw: "total getCalibratedVL (rs @ [r0]) = 12000000" "total getIL (rs @ [r0]) = 100000"
    by (simp_all add: rs_def r0_def total_simps total_replicate quiet_def)
  have tl: "wrap_s32 (total getCalibratedVL (rs @ [r0])) = 12000000"
    "wrap_s16 (total getIL (rs @ [r0])) = - 31072"
    "wrap_s16 (total getIH (rs @ [r0])) = 0"
    "wrap_s32 (total getCalibratedVH (rs @ [r0])) = 0"
    by (simp_all add: rs_def r0_def total_simps total_replicate quiet_def wrap_s32_def wrap_s16_def)
  have q: "c_div 12000000 (NUM_AVERAGES mppt_config + 1) = 11988"
    "c_div (- 31072) (NUM_AVERAGES mppt_config + 1) = - 31"
    "c_div 100000 (NUM_AVERAGES mppt_config + 1) = 99"
    by (simp_all add: c_div_def mppt_config_def)
  have hyps: "0 < NUM_AVERAGES mppt_config" "NUM_AVERAGES mppt_config < 32767"
    "\<not> (SAFETY_ENABLE mppt_config \<and> VOLTAGE_SAFETY setup_mppt)"
    "avgCount setup_mppt = 0" "avgLowCurrentSum setup_mppt = 0" "avgHighCurrentSum setup_mppt = 0"
    "avgLowVoltageSum setup_mppt = 0" "avgHighVoltageSum setup_mppt = 0"
    by (simp_all add: mppt_config_def setup_mppt_def globals_init_def)
  have ver: "0 < VOLTAGE_ERROR_RANGE mppt_config" by (simp add: mppt_config_def)
  from mppt_window [of mppt_config setup_mppt rs fp r0, OF hyps len] obtain s'
    where all: "run (controlUpdate_mppt fp mppt_config) (rs @ [r0]) setup_mppt
        = mppt_close fp mppt_config (mppt_accumulate r0 s')"
      and sums: "avgLowCurrentSum (mppt_accumulate r0 s') = - 31072"
        "avgLowVoltageSum (mppt_accumulate r0 s') = 12000000"
    unfolding tl by blast
  have "c_div (avgLowVoltageSum (mppt_accumulate r0 s')) (NUM_AVERAGES mppt_config + 1) \<noteq> 0"
    unfolding sums q by simp
  from mppt_close_total [OF ver this, of fp] obtain s2 ev
    where cl: "mppt_close fp mppt_config (mppt_accumulate r0 s') = Inr (s2, ev)"
    by blast
  have "avgLowVoltage s2 = 11988 \<and> avgLowCurrent s2 = - 31 \<and>
      avgLowVoltageSum s2 = 0 \<and> avgLowCurrentSum s2 = 0 \<and>
      avgHighVoltageSum s2 = 0 \<and> avgHighCurrentSum s2 = 0 \<and> avgCount s2 = 0 \<and>
      length (duty_writes ev) = 1"
    using mppt_close_result [OF cl] mppt_close_writes [OF cl] unfolding sums q by simp
  with all cl
  have A: "\<exists>s2 ev. run (controlUpdate_mppt fp mppt_config) (rs @ [r0]) setup_mppt = Inr (s2, ev) \<and>
      avgLowVoltage s2 = 11988 \<and> avgLowCurrent s2 = - 31 \<and>
      avgLowVoltageSum s2 = 0 \<and> avgLowCurrentSum s2 = 0 \<and>
      avgHighVoltageSum s2 = 0 \<and> avgHighCurrentSum s2 = 0 \<and> avgCount s2 = 0 \<and>
      length (duty_writes ev) = 1"
    by simp
  have B: "c_div (total getCalibratedVL (rs @ [r0])) (NUM_AVERAGES mppt_config + 1) = 11988"
    "c_div (total getIL (rs @ [r0])) (NUM_AVERAGES mppt_config + 1) = 99"
    unfolding raw q by simp_all
  have n: "NUM_AVERAGES pid_mppt_config = 1000" "NUM_AVERAGES pid_mppt_config + 1 = 1001"
    by (simp_all add: pid_mppt_config_def)
  have idle: "\<not> (SAFETY_ENABLE pid_mppt_config \<and> VOLTAGE_SAFETY s0)"
    by (simp add: pid_mppt_config_def)
  have tq: "total getIL qs = 100000" "total getCalibratedVL2 qs = 12000000"
    by (simp_all add: qs_def r0_def total_replicate quiet_def)
  have "\<exists>s' ev. run (controlUpdate_pid_mppt fp pid_mppt_config) qs s0 = Inr (s', ev) \<and>
         avgCount s' = avgCount s0 + int (length qs) \<and>
         VOLTAGE_SAFETY s' = VOLTAGE_SAFETY s0 \<and>
         avgPrevLowCurrent s' = avgPrevLowCurrent s0 \<and>
         avgPrevLowVoltage s' = avgPrevLowVoltage s0 \<and>
         avgLowCurrentSum s' = wrap_s32 (0 + total getIL qs) \<and>
         avgHighCurrentSum s' = wrap_s32 (0 + total getIH qs) \<and>
         avgLowVoltageSum s' = wrap_s32 (0 + total getCalibratedVL2 qs) \<and>
         avgHighVoltageSum s' = wrap_s32 (0 + total getCalibratedVH qs)"
    by (rule pid_accumulating)
      (simp_all add: s0_def qs_def r0_def quiet_def globals_init_def pid_mppt_config_def wrap_zero)
  then obtain t ev where run: "run (controlUpdate_pid_mppt fp pid_mppt_config) qs s0 = Inr (t, ev)"
    and cnt: "avgCount t = avgCount s0 + int (length qs)"
    and flag: "VOLTAGE_SAFETY t = VOLTAGE_SAFETY s0"
    and ts: "avgLowCurrentSum t = wrap_s32 (0 + total getIL qs)"
      "avgLowVoltageSum t = wrap_s32 (0 + total getCalibratedVL2 qs)"
    by blast
  have ts': "avgLowCurrentSum t = 100000" "avgLowVoltageSum t = 12000000"
    unfolding ts tq by (simp_all add: wrap_s32_def)
  have cnt': "avgCount t = NUM_AVERAGES pid_mppt_config"
    unfolding cnt n by (simp add: s0_def qs_def globals_init_def)
  have idle': "\<not> (SAFETY_ENABLE pid_mppt_config \<and> VOLTAGE_SAFETY t)"
    using idle flag by simp
  have ver': "0 < VOLTAGE_ERROR_RANGE pid_mppt_config" by (simp add: pid_mppt_config_def)
  have vl: "getCalibratedVL r0 \<noteq> 0" by (simp add: r0_def)
  have nz: "c_div (avgLowVoltageSum t) (NUM_AVERAGES pid_mppt_config + 1) \<noteq> 0"
    unfolding ts' n by (simp add: c_div_def)
  from pid_tick_closes [OF idle' cnt' ver' vl nz, of fp] obtain t2 ev2
    where close: "controlUpdate_pid_mppt fp pid_mppt_config r0 t = Inr (t2, ev2)"
      and avgs: "avgLowCurrent t2 = c_div (avgLowCurrentSum t) (NUM_AVERAGES pid_mppt_config + 1)"
        "avgLowVoltage t2 = c_div (avgLowVoltageSum t) (NUM_AVERAGES pid_mppt_config + 1)"
        "avgLowCurrentSum t2 = 0" "avgLowVoltageSum t2 = 0" "avgCount t2 = 0"
    by blast
  have "avgLowVoltage t2 = 11988" "avgLowCurrent t2 = 99"
    unfolding avgs ts' n by (simp_all add: c_div_def)
  with run close avgs(3-5)
  have C: "\<exists>s' ev s2 ev2. run (controlUpdate_pid_mppt fp pid_mppt_config) qs s0 = Inr (s', ev) \<and>
      controlUpdate_pid_mppt fp pid_mppt_config r0 s' = Inr (s2, ev2) \<and>
      avgLowVoltage s2 = 11988 \<and> avgLowCurrent s2 = 99 \<and>
      avgLowVoltageSum s2 = 0 \<and> avgLowCurrentSum s2 = 0 \<and> avgCount s2 = 0"
    by blast
  from A B C show ?thesis unfolding rs_def qs_def r0_def s0_def by blast
qed

section \<open>The PI regulator\<close>













text \<open>
  Claim C8, as amended. No sketch skips the update when the measured voltage is 0. The
  buck converter divides by the measurement plus 1, so a zero measurement divides by 1
  (provided 0 and 1 are rounded to themselves): the percent error is the error itself,
  \<open>-kp\<close> times the error is \<open>proportionalControl\<close>, \<open>-ki\<close> times the error is added to
  \<open>integralControl\<close>, and the duty cycle is updated, clamped to 10 and 1014 and handed to
  the actuator, in every state. The two sketches that divide by the measurement itself
  evaluate the percent error with the divisor 0.
\<close>

theorem buck_zero_measurement:
  assumes zero: "round_to fp 0 = 0" and one: "round_to fp 1 = 1"
    and vl: "getCalibratedVL r = 0"
  shows "percent_error fp True e 0 = Inr (round_to fp (dbl fp e)) \<and>
         (\<exists>s1. controlUpdate_buck fp c r s = Inr (s1, [SetDutyCycle (dutyCycle s1)]) \<and>
            10 \<le> dutyCycle s1 \<and> dutyCycle s1 \<le> 1014 \<and>
            integralControl s1
              = fadd fp (integralControl s)
                  (- (fmul fp (lit fp (ki c))
                        (round_to fp (dbl fp (wrap_s32 (0 - desiredLowVoltage s)))))) \<and>
            dutyCycle s1
              = constrain (scaled_duty fp (dutyCycle s)
                  (fadd fp
                     (- (fmul fp (lit fp (kp c))
                           (round_to fp (dbl fp (wrap_s32 (0 - desiredLowVoltage s))))))
                     (integralControl s1))) 10 1014) \<and>
         pi_regulate fp c False hi 0 s = Inl ZeroDivisor \<and>
         controlUpdate_old fp c r s = Inl ZeroDivisor \<and>
         (\<not> (SAFETY_ENABLE c \<and> VOLTAGE_SAFETY s) \<longrightarrow>
            controlUpdate_pid_mppt fp c r s = Inl ZeroDivisor)"
proof -
  have d: "fadd fp (dbl fp 0) (dbl fp 1) = 1"
    using zero one by (simp add: fadd_def dbl_def)
  have a: "percent_error fp True e 0 = Inr (round_to fp (dbl fp e))" for e
    by (simp add: percent_error_def fquot_def d)
  have b: "\<exists>s1. controlUpdate_buck fp c r s = Inr (s1, [SetDutyCycle (dutyCycle s1)]) \<and>
            10 \<le> dutyCycle s1 \<and> dutyCycle s1 \<le> 1014 \<and>
            integralControl s1
              = fadd fp (integralControl s)
                  (- (fmul fp (lit fp (ki c))
                        (round_to fp (dbl fp (wrap_s32 (0 - desiredLowVoltage s)))))) \<and>
            dutyCycle s1
              = constrain (scaled_duty fp (dutyCycle s)
                  (fadd fp
                     (- (fmul fp (lit fp (kp c))
                           (round_to fp (dbl fp (wrap_s32 (0 - desiredLowVoltage s))))))
                     (integralControl s1))) 10 1014"
    using vl constrain_bounds [of 10 1014]
    by (simp add: controlUpdate_buck_def pi_regulate_def pi_terms_def a Let_def)
  have c: "pi_regulate fp c False hi 0 s = Inl ZeroDivisor" for hi
    by (simp add: pi_regulate_fault)
  have o: "controlUpdate_old fp c r s = Inl ZeroDivisor"
    using vl c [of 1014] by (simp add: controlUpdate_old_def)
  have p: "controlUpdate_pid_mppt fp c r s = Inl ZeroDivisor"
    if "\<not> (SAFETY_ENABLE c \<and> VOLTAGE_SAFETY s)"
    using that vl c [of 1023] by (auto simp: controlUpdate_pid_mppt_def)
  show ?thesis using a b c o p by blast
qed

text \<open>
  The buck converter in single precision, reading 0 while it wants 5000 mV: the percent
  error is -5000 and \<open>proportionalControl\<close> 1500; from the duty cycle 10 the update
  gives 15010 and 1014 is handed over; from the start-up duty cycle 426 it gives 639426,
  which does not fit \<open>uint16_t\<close>, and what is handed over is within the bounds, 1014
  where the conversion keeps the low 16 bits.
\<close>

theorem buck_zero_measurement_witness:
  "(\<forall>oor. round_to (binary32 oor) 0 = 0) \<and> (\<forall>oor. round_to (binary32 oor) 1 = 1) \<and>
   getCalibratedVL quiet = 0 \<and>
   (\<forall>oor. percent_error (binary32 oor) True (- 5000) 0 = Inr (- 5000)) \<and>
   (\<forall>oor. controlUpdate_buck (binary32 oor) buck_config quiet
       (globals_init\<lparr> desiredLowVoltage := 5000, dutyCycle := 10 \<rparr>)
     = Inr (globals_init\<lparr> desiredLowVoltage := 5000, dutyCycle := 1014 \<rparr>, [SetDutyCycle 1014])) \<and>
   (\<forall>oor. list_all (\<lambda>d. 10 \<le> d \<and> d \<le> 1014)
     (duty_writes (snd (projr (controlUpdate_buck (binary32 oor) buck_config quiet
       (globals_init\<lparr> desiredLowVoltage := 5000, dutyCycle := 426 \<rparr>)))))) \<and>
   (\<forall>oor. length (duty_writes (snd (projr (controlUpdate_buck (binary32 oor) buck_config quiet
       (globals_init\<lparr> desiredLowVoltage := 5000, dutyCycle := 426 \<rparr>))))) = 1) \<and>
   controlUpdate_buck (binary32 trunc) buck_config quiet
       (globals_init\<lparr> desiredLowVoltage := 5000, dutyCycle := 426 \<rparr>)
     = Inr (globals_init\<lparr> desiredLowVoltage := 5000, dutyCycle := 1014 \<rparr>, [SetDutyCycle 1014])"
proof -
  let ?s = "globals_init\<lparr> desiredLowVoltage := 5000, dutyCycle := 10 \<rparr>"
  let ?t = "globals_init\<lparr> desiredLowVoltage := 5000, dutyCycle := 426 \<rparr>"
  have h: "round_to (binary32 oor) 0 = 0" "round_to (binary32 oor) 1 = 1"
    "getCalibratedVL quiet = 0" for oor
    by (simp_all add: fp_eval quiet_def)
  have a: "percent_error (binary32 oor) True (- 5000) 0 = Inr (- 5000)" for oor
    using buck_zero_measurement [where fp = "binary32 oor" and r = quiet and e = "- 5000", OF h]
    by (simp add: fp_eval)
  have b: "controlUpdate_buck (binary32 oor) buck_config quiet ?s
     = Inr (globals_init\<lparr> desiredLowVoltage := 5000, dutyCycle := 1014 \<rparr>, [SetDutyCycle 1014])"
    for oor
  proof -
    from buck_zero_measurement [where fp = "binary32 oor" and r = quiet and c = buck_config
        and s = ?s, OF h]
    obtain s1 where tick: "controlUpdate_buck (binary32 oor) buck_config quiet ?s
        = Inr (s1, [SetDutyCycle (dutyCycle s1)])"
      by blast
    have "controlUpdate_buck (binary32 oor) buck_config quiet ?s
        = Inr (globals_init\<lparr> desiredLowVoltage := 5000, dutyCycle := 1014 \<rparr>, [SetDutyCycle 1014])"
      by (simp add: controlUpdate_buck_def pi_regulate_def pi_terms_def percent_error_def
          fp_eval constrain_def buck_config_def quiet_def globals_init_def wrap_s32_def Let_def)
    with tick show ?thesis by simp
  qed
  have c: "list_all (\<lambda>d. 10 \<le> d \<and> d \<le> 1014)
       (duty_writes (snd (projr (controlUpdate_buck (binary32 oor) buck_config quiet ?t)))) \<and>
     length (duty_writes (snd (projr (controlUpdate_buck (binary32 oor) buck_config quiet ?t)))) = 1"
    for oor
  proof -
    from buck_zero_measurement [where fp = "binary32 oor" and r = quiet and c = buck_config
        and s = ?t, OF h]
    obtain s1 where "controlUpdate_buck (binary32 oor) buck_config quiet ?t
        = Inr (s1, [SetDutyCycle (dutyCycle s1)])"
      and "10 \<le> dutyCycle s1" and "dutyCycle s1 \<le> 1014"
      by blast
    then show ?thesis by simp
  qed
  have d: "controlUpdate_buck (binary32 trunc) buck_config quiet ?t
     = Inr (globals_init\<lparr> desiredLowVoltage := 5000, dutyCycle := 1014 \<rparr>, [SetDutyCycle 1014])"
    by (simp add: controlUpdate_buck_def pi_regulate_def pi_terms_def percent_error_def
        fp_eval constrain_def buck_config_def quiet_def globals_init_def wrap_s32_def
        wrap_u16_def Let_def)
  show ?thesis using h a b c d by simp
qed

text \<open>
  The claim as stated fails in every regulating sketch. With a zero measurement the buck
  converter, at the duty cycle 10, sets the duty cycle to 1014; the two sketches that
  divide by the measurement itself evaluate the percent error with the divisor 0.
\<close>

theorem zero_measurement_counterexample:
  "(\<forall>oor. controlUpdate_buck (binary32 oor) buck_config (quiet\<lparr> getCalibratedVL := 0 \<rparr>)
       (globals_init\<lparr> desiredLowVoltage := 5000, dutyCycle := 10 \<rparr>)
     = Inr (globals_init\<lparr> desiredLowVoltage := 5000, dutyCycle := 1014 \<rparr>, [SetDutyCycle 1014])) \<and>
   (\<forall>oor. controlUpdate_buck (binary64 oor) buck_config (quiet\<lparr> getCalibratedVL := 0 \<rparr>)
       (globals_init\<lparr> desiredLowVoltage := 5000, dutyCycle := 10 \<rparr>)
     = Inr (globals_init\<lparr> desiredLowVoltage := 5000, dutyCycle := 1014 \<rparr>, [SetDutyCycle 1014])) \<and>
   (\<forall>fp. controlUpdate_pid_mppt fp pid_mppt_config (quiet\<lparr> getCalibratedVL := 0 \<rparr>)
       (globals_init\<lparr> desiredLowVoltage := 8000, dutyCycle := 682 \<rparr>) = Inl ZeroDivisor) \<and>
   (\<forall>fp. controlUpdate_old fp old_config (quiet\<lparr> getCalibratedVL := 0 \<rparr>)
       (globals_init\<lparr> desiredLowVoltage := 8000, dutyCycle := 682 \<rparr>) = Inl ZeroDivisor)"
  by (simp add: controlUpdate_buck_def controlUpdate_pid_mppt_def controlUpdate_old_def
      pi_regulate_def pi_terms_def percent_error_def fp_eval constrain_def
      buck_config_def pid_mppt_config_def old_config_def quiet_def globals_init_def wrap_s32_def
      Let_def)

end
